theory Spec2Isabelle
  imports Complex_Main "HOL-Library.AList" "HOL-Library.Char_ord" "HOL-Library.List_Lexorder"
begin

section \<open>Conventions of the embedding\<close>

text \<open>
  The development embeds the parts of \<open>matscipy/elasticity.py\<close> and
  \<open>matscipy/fracture_mechanics/crack.py\<close> that the specification's properties are about.

  \<^item> Python and numpy floating-point numbers are modelled by the real numbers (and complex
    floating-point numbers by \<open>complex\<close>), so the statements below are about exact
    arithmetic, with one exception: the rotation of the elastic constants by the identity
    matrix, of which exactness is the property at stake, is also modelled with the
    rounding of double precision.
  \<^item> Every \<open>raise\<close> of the source is a value \<open>Inl e\<close> of a sum type, \<open>Inr\<close> carries the
    returned value.
  \<^item> An object that a method mutates is passed in and returned updated.
\<close>

datatype error =
    RuntimeError string
  | NotImplementedError
  | NameError string
  | KeyError string
  | ValueError
  | TypeError
  | ZeroDivisionError
  | IndexError

section \<open>elasticity.py: CubicElasticModuli\<close>

text \<open>
  A numpy array of shape (3, 3) is a function of its two indices; only the indices
  0, 1, 2 are ever read. The lists the source builds (\<open>C\<close>, \<open>C9\<close>, the three arrays of
  rotated constants) are lists.
\<close>

type_synonym matrix = "nat \<Rightarrow> nat \<Rightarrow> real"

type_synonym rotated = "real list \<times> real list \<times> real list"

record CubicElasticModuli =
  C11 :: real
  C12 :: real
  C44 :: real
  la :: real
  mu :: real
  al :: real
  C11_rot :: "real list"
  C12_rot :: "real list"
  C44_rot :: "real list"

definition tol :: real where
  "tol = 1 / 1000000"

text \<open>The class attribute \<open>t\<close>: the indices of the full stiffness matrix of interest.\<close>

definition t :: "(nat \<times> nat \<times> nat \<times> nat) list" where
  "t = [(0, 0, 0, 0), (1, 1, 1, 1), (2, 2, 2, 2),
        (1, 1, 2, 2), (0, 0, 2, 2), (0, 0, 1, 1),
        (1, 2, 1, 2), (0, 2, 0, 2), (0, 1, 0, 1)]"

definition range3 :: "nat list" where
  "range3 = [0, 1, 2]"

definition eye :: matrix where
  "eye i j = (if i = j then 1 else 0)"

text \<open>\<open>np.dot(A, np.transpose(A))[i, j]\<close>.\<close>

definition dot_transpose :: "matrix \<Rightarrow> nat \<Rightarrow> nat \<Rightarrow> real" where
  "dot_transpose A i j = sum_list (map (\<lambda>a. A i a * A j a) range3)"

text \<open>
  The test \<open>np.sometrue(np.abs(np.dot(A, A.T) - np.eye(3)) > self.tol)\<close> that both
  \<open>rotate\<close> and \<open>_rotate_explicit\<close> start with.
\<close>

definition not_a_rotation :: "matrix \<Rightarrow> bool" where
  "not_a_rotation A =
     list_ex (\<lambda>i. list_ex (\<lambda>j. \<bar>dot_transpose A i j - eye i j\<bar> > tol) range3) range3"

text \<open>The part of the two loop bodies that the closed form and the explicit tensor share.\<close>

definition isotropic_part :: "CubicElasticModuli \<Rightarrow> nat \<Rightarrow> nat \<Rightarrow> nat \<Rightarrow> nat \<Rightarrow> real" where
  "isotropic_part self i j k m =
     (let h = 0;
          h = (if i = j \<and> k = m then h + la self else h);
          h = (if i = k \<and> j = m then h + mu self else h);
          h = (if i = m \<and> j = k then h + mu self else h)
      in h)"

text \<open>
  The body of the loop of \<open>rotate\<close> for one index tuple of \<open>t\<close>, in exact arithmetic
  (\<open>rotate_entry_fl\<close> below is the same body with every operation rounded).
\<close>

fun rotate_entry :: "CubicElasticModuli \<Rightarrow> matrix \<Rightarrow> nat \<times> nat \<times> nat \<times> nat \<Rightarrow> real" where
  "rotate_entry self A (i, j, k, m) =
     isotropic_part self i j k m
       + al self * sum_list (map (\<lambda>a. A i a * A j a * A k a * A m a) range3)"

definition store_rotated :: "CubicElasticModuli \<Rightarrow> real list \<Rightarrow> CubicElasticModuli \<times> rotated" where
  "store_rotated self C =
     (let c11 = take 3 C; c12 = take 3 (drop 3 C); c44 = take 3 (drop 6 C)
      in (self\<lparr>C11_rot := c11, C12_rot := c12, C44_rot := c44\<rparr>, (c11, c12, c44)))"

definition rotate :: "CubicElasticModuli \<Rightarrow> matrix \<Rightarrow> error + CubicElasticModuli \<times> rotated" where
  "rotate self A =
     (if not_a_rotation A then Inl (RuntimeError ''Matrix *A* does not describe a rotation.'')
      else Inr (store_rotated self (map (rotate_entry self A) t)))"





text \<open>
  \<open>CubicElasticModuli.__init__\<close>: stores the constants and rotates by the identity. The
  rotated constants do not exist before that first call of \<open>rotate\<close>; the record holds
  empty lists until then.
\<close>

definition CubicElasticModuli_init :: "real \<Rightarrow> real \<Rightarrow> real \<Rightarrow> error + CubicElasticModuli" where
  "CubicElasticModuli_init c11 c12 c44 =
     (let self = \<lparr>C11 = c11, C12 = c12, C44 = c44,
                  la = c12, mu = c44, al = c11 - c12 - 2 * c44,
                  C11_rot = [], C12_rot = [], C44_rot = []\<rparr>
      in case rotate self eye of
           Inl e \<Rightarrow> Inl e
         | Inr (self', _) \<Rightarrow> Inr self')"

text \<open>\<open>CubicElasticModuli.compliance\<close>: the body is \<open>raise NotImplementedError\<close>.\<close>

definition compliance :: "CubicElasticModuli \<Rightarrow> error + (nat \<Rightarrow> nat \<Rightarrow> real)" where
  "compliance self = Inl NotImplementedError"


subsection \<open>The rotation in rounded arithmetic\<close>

text \<open>
  The definitions above compute in exact real arithmetic. The program computes in double
  precision, where every arithmetic operation returns its exact result rounded. The
  closed form \<open>rotate\<close> and the constructor are therefore given a second time, with a
  rounding function \<open>fl\<close> applied to the result of every arithmetic operation of the
  source, in the order in which Python evaluates them. With the identity function for
  \<open>fl\<close> these are the definitions above (lemmas \<open>rotate_fl_exact\<close> and
  \<open>CubicElasticModuli_init_fl_exact\<close>).
\<close>

type_synonym rounding = "real \<Rightarrow> real"

text \<open>Rounding to the nearest integer, a tie going to the even one.\<close>

definition round_even :: "real \<Rightarrow> int" where
  "round_even x =
     (let f = \<lfloor>x\<rfloor>; r = x - of_int f
      in if r < 1 / 2 then f else if 1 / 2 < r then f + 1 else if even f then f else f + 1)"

text \<open>
  The rounding of IEEE 754 double precision (to the nearest number with a significand of
  53 bits, ties to even) with an unbounded range of exponents: a number \<open>x\<close> with
  \<open>2\<^sup>e \<le> |x| < 2\<^sup>e\<^sup>+\<^sup>1\<close> is rounded to the nearest multiple of \<open>2\<^sup>e\<^sup>-\<^sup>5\<^sup>2\<close>. Overflow,
  subnormal numbers, infinities and NaN are not represented.
\<close>

definition binary64 :: rounding where
  "binary64 x =
     (if x = 0 then 0
      else let w = 2 powr (of_int \<lfloor>log 2 \<bar>x\<bar>\<rfloor> - 52)
           in w * of_int (round_even (x / w)))"

text \<open>
  The reductions inside \<open>np.sum\<close> and \<open>np.dot\<close> are numpy's: they are taken to add from
  left to right, starting from the first element. For the rows of the identity matrix,
  whose products are 0 and 1, every order of the additions gives the same number.
\<close>

definition fl_sum :: "rounding \<Rightarrow> real list \<Rightarrow> real" where
  "fl_sum fl xs = (case xs of [] \<Rightarrow> 0 | x # rest \<Rightarrow> foldl (\<lambda>s y. fl (s + y)) x rest)"

definition dot_transpose_fl :: "rounding \<Rightarrow> matrix \<Rightarrow> nat \<Rightarrow> nat \<Rightarrow> real" where
  "dot_transpose_fl fl A i j = fl_sum fl (map (\<lambda>a. fl (A i a * A j a)) range3)"

text \<open>The test for a rotation; the literal \<open>1e-6\<close> of \<open>tol\<close> is itself rounded.\<close>

definition not_a_rotation_fl :: "rounding \<Rightarrow> matrix \<Rightarrow> bool" where
  "not_a_rotation_fl fl A =
     list_ex (\<lambda>i. list_ex (\<lambda>j. \<bar>fl (dot_transpose_fl fl A i j - eye i j)\<bar> > fl tol) range3) range3"

text \<open>The statements \<open>h = 0.0\<close> and \<open>h += ...\<close> of the loop body of \<open>rotate\<close>.\<close>

definition isotropic_part_fl :: "rounding \<Rightarrow> CubicElasticModuli \<Rightarrow> nat \<Rightarrow> nat \<Rightarrow> nat \<Rightarrow> nat \<Rightarrow> real" where
  "isotropic_part_fl fl self i j k m =
     (let h = 0;
          h = (if i = j \<and> k = m then fl (h + la self) else h);
          h = (if i = k \<and> j = m then fl (h + mu self) else h);
          h = (if i = m \<and> j = k then fl (h + mu self) else h)
      in h)"

text \<open>
  \<open>h += self.al*np.sum(A[i,:]*A[j,:]*A[k,:]*A[m,:])\<close>: three elementwise products, the
  sum, the product with \<open>al\<close> and the addition to \<open>h\<close>, each rounded.
\<close>

fun rotate_entry_fl :: "rounding \<Rightarrow> CubicElasticModuli \<Rightarrow> matrix \<Rightarrow> nat \<times> nat \<times> nat \<times> nat \<Rightarrow> real" where
  "rotate_entry_fl fl self A (i, j, k, m) =
     fl (isotropic_part_fl fl self i j k m
          + fl (al self * fl_sum fl (map (\<lambda>a. fl (fl (fl (A i a * A j a) * A k a) * A m a)) range3)))"

definition rotate_fl :: "rounding \<Rightarrow> CubicElasticModuli \<Rightarrow> matrix \<Rightarrow> error + CubicElasticModuli \<times> rotated" where
  "rotate_fl fl self A =
     (if not_a_rotation_fl fl A then Inl (RuntimeError ''Matrix *A* does not describe a rotation.'')
      else Inr (store_rotated self (map (rotate_entry_fl fl self A) t)))"

text \<open>The constructor: \<open>self.al = C11 - self.la - 2*self.mu\<close> is two subtractions and a product.\<close>

definition CubicElasticModuli_init_fl :: "rounding \<Rightarrow> real \<Rightarrow> real \<Rightarrow> real \<Rightarrow> error + CubicElasticModuli" where
  "CubicElasticModuli_init_fl fl c11 c12 c44 =
     (let self = \<lparr>C11 = c11, C12 = c12, C44 = c44,
                  la = c12, mu = c44, al = fl (fl (c11 - c12) - fl (2 * c44)),
                  C11_rot = [], C12_rot = [], C44_rot = []\<rparr>
      in case rotate_fl fl self eye of
           Inl e \<Rightarrow> Inl e
         | Inr (self', _) \<Rightarrow> Inr self')"

section \<open>crack.py: RectilinearAnisotropicCrack\<close>

text \<open>
  The object after a successful \<open>set_plane_stress\<close> or \<open>set_plane_strain\<close>: the six
  reduction coefficients and everything \<open>_init_crack\<close> derives from them. The roots are
  numpy complex numbers.
\<close>

record RectilinearAnisotropicCrack =
  a11 :: real
  a22 :: real
  a12 :: real
  a16 :: real
  a26 :: real
  a66 :: real
  mu1 :: complex
  mu2 :: complex
  p1 :: complex
  p2 :: complex
  q1 :: complex
  q2 :: complex
  h1 :: complex
  h2 :: complex
  h3 :: complex
  h4 :: complex
  h5 :: complex

text \<open>
  \<open>np.poly1d(c).r\<close> is numpy's root finder, outside the repository: it is the parameter
  \<open>roots\<close>, a function from the coefficient list (highest power first) to the array of
  roots it returns, in the order it returns them.
\<close>

type_synonym root_finder = "real list \<Rightarrow> complex list"

text \<open>The coefficient list that \<open>_init_crack\<close> hands to \<open>np.poly1d\<close>.\<close>

definition quartic :: "real \<Rightarrow> real \<Rightarrow> real \<Rightarrow> real \<Rightarrow> real \<Rightarrow> real \<Rightarrow> real list" where
  "quartic A11 A22 A12 A16 A26 A66 = [A11, - 2 * A16, 2 * A12 + A66, - 2 * A26, A22]"

text \<open>
  \<open>_init_crack\<close>, with the coefficients that the caller has just stored in \<open>self\<close>. The
  tuple assignment \<open>mu1, mu2, mu3, mu4 = p.r\<close> raises ValueError unless the array has
  exactly four entries. The divisions are numpy scalar divisions, which do not raise.
\<close>

definition init_crack ::
  "root_finder \<Rightarrow> real \<Rightarrow> real \<Rightarrow> real \<Rightarrow> real \<Rightarrow> real \<Rightarrow> real \<Rightarrow> error + RectilinearAnisotropicCrack" where
  "init_crack roots A11 A22 A12 A16 A26 A66 =
     (case roots (quartic A11 A22 A12 A16 A26 A66) of
        [m1, m2, m3, m4] \<Rightarrow>
          if m1 \<noteq> cnj m2 then Inl (RuntimeError ''Roots not in pairs.'')
          else if m3 \<noteq> cnj m4 then Inl (RuntimeError ''Roots not in pairs.'')
          else
            let P1 = of_real A11 * m1\<^sup>2 + of_real A12 - of_real A16 * m1;
                P2 = of_real A11 * m3\<^sup>2 + of_real A12 - of_real A16 * m3;
                Q1 = of_real A12 * m1 + of_real A22 / m1 - of_real A26;
                Q2 = of_real A12 * m3 + of_real A22 / m3 - of_real A26
            in Inr \<lparr>a11 = A11, a22 = A22, a12 = A12, a16 = A16, a26 = A26, a66 = A66,
                    mu1 = m1, mu2 = m3, p1 = P1, p2 = P2, q1 = Q1, q2 = Q2,
                    h1 = 1 / (m1 - m3), h2 = m1 * P2, h3 = m3 * P1,
                    h4 = m1 * Q2, h5 = m3 * Q1\<rparr>
      | _ \<Rightarrow> Inl ValueError)"

definition set_plane_stress ::
  "root_finder \<Rightarrow> real \<Rightarrow> real \<Rightarrow> real \<Rightarrow> real \<Rightarrow> real \<Rightarrow> real \<Rightarrow> error + RectilinearAnisotropicCrack" where
  "set_plane_stress roots A11 A22 A12 A16 A26 A66 = init_crack roots A11 A22 A12 A16 A26 A66"

text \<open>
  \<open>set_plane_strain\<close> divides Python floats by \<open>b33\<close>; the first division raises
  ZeroDivisionError when \<open>b33\<close> is zero.
\<close>

definition set_plane_strain ::
  "root_finder \<Rightarrow> real \<Rightarrow> real \<Rightarrow> real \<Rightarrow> real \<Rightarrow> real \<Rightarrow> real \<Rightarrow> real \<Rightarrow> real \<Rightarrow> real \<Rightarrow> real
     \<Rightarrow> error + RectilinearAnisotropicCrack" where
  "set_plane_strain roots b11 b22 b33 b12 b13 b23 b16 b26 b36 b66 =
     (if b33 = 0 then Inl ZeroDivisionError
      else init_crack roots
             (b11 - (b13 * b13) / b33)
             (b22 - (b23 * b23) / b33)
             (b12 - (b13 * b23) / b33)
             (b16 - (b13 * b36) / b33)
             (b26 - (b23 * b36) / b33)
             b66)"

text \<open>
  The number whose square root \<open>k1g\<close> takes. Both divisions are numpy scalar divisions
  (the roots are numpy numbers): a zero divisor gives an infinity or a NaN there, and
  0 here, so the statements about \<open>k1g\<close> are for non-zero divisors.
\<close>

definition k1g_denominator :: "RectilinearAnisotropicCrack \<Rightarrow> real" where
  "k1g_denominator self = a22 self * Im ((mu1 self + mu2 self) / (mu1 self * mu2 self))"

definition k1g_radicand :: "RectilinearAnisotropicCrack \<Rightarrow> real \<Rightarrow> real" where
  "k1g_radicand self surface_energy = - 4 * surface_energy / k1g_denominator self"

text \<open>\<open>math.sqrt\<close> raises ValueError (math domain error) on a negative argument.\<close>

definition math_sqrt :: "real \<Rightarrow> error + real" where
  "math_sqrt x = (if x < 0 then Inl ValueError else Inr (sqrt x))"

definition k1g :: "RectilinearAnisotropicCrack \<Rightarrow> real \<Rightarrow> error + real" where
  "k1g self surface_energy = math_sqrt (k1g_radicand self surface_energy)"

section \<open>crack.py: CubicCrystalCrack\<close>

type_synonym vec3 = "real \<times> real \<times> real"

definition PLANE_STRAIN :: string where
  "PLANE_STRAIN = ''plane strain''"

definition PLANE_STRESS :: string where
  "PLANE_STRESS = ''plane stress''"

fun cross :: "vec3 \<Rightarrow> vec3 \<Rightarrow> vec3" where
  "cross (a0, a1, a2) (b0, b1, b2) = (a1 * b2 - a2 * b1, a2 * b0 - a0 * b2, a0 * b1 - a1 * b0)"

fun dot :: "vec3 \<Rightarrow> vec3 \<Rightarrow> real" where
  "dot (a0, a1, a2) (b0, b1, b2) = a0 * b0 + a1 * b1 + a2 * b2"

fun divide_by :: "vec3 \<Rightarrow> real \<Rightarrow> vec3" where
  "divide_by (a0, a1, a2) d = (a0 / d, a1 / d, a2 / d)"

fun negate :: "vec3 \<Rightarrow> vec3" where
  "negate (a0, a1, a2) = (- a0, - a1, - a2)"

fun component :: "vec3 \<Rightarrow> nat \<Rightarrow> real" where
  "component (a0, a1, a2) n = [a0, a1, a2] ! n"

text \<open>\<open>np.array([r0, r1, r2])\<close>: the matrix with the three vectors as rows.\<close>

definition rows :: "vec3 \<Rightarrow> vec3 \<Rightarrow> vec3 \<Rightarrow> matrix" where
  "rows r0 r1 r2 i a = component ([r0, r1, r2] ! i) a"

text \<open>\<open>np.linalg.det\<close> of a 3 by 3 matrix.\<close>

definition det :: "matrix \<Rightarrow> real" where
  "det A = A 0 0 * (A 1 1 * A 2 2 - A 1 2 * A 2 1)
         - A 0 1 * (A 1 0 * A 2 2 - A 1 2 * A 2 0)
         + A 0 2 * (A 1 0 * A 2 1 - A 1 1 * A 2 0)"

text \<open>
  The orientation matrix that \<open>CubicCrystalCrack.__init__\<close> builds from the crack surface
  and the crack front. The three normalisations are numpy divisions: for a zero vector
  they produce NaN where the model produces 0, so the statements about the constructor
  are for vectors whose cross product is not zero.
\<close>

definition orientation :: "vec3 \<Rightarrow> vec3 \<Rightarrow> matrix" where
  "orientation crack_surface crack_front =
     (let third_dir = cross crack_surface crack_front;
          third_dir = divide_by third_dir (sqrt (dot third_dir third_dir));
          crack_surface = divide_by crack_surface (sqrt (dot crack_surface crack_surface));
          crack_front = divide_by crack_front (sqrt (dot crack_front crack_front));
          A = rows third_dir crack_surface crack_front;
          third_dir = (if det A < 0 then negate third_dir else third_dir)
      in rows third_dir crack_surface crack_front)"

text \<open>
  A constructed object: the elastic moduli and the crack solution, which stays
  unconfigured (\<open>None\<close>) when \<open>stress_state\<close> is neither of the two constants.
\<close>

record CubicCrystalCrack =
  E :: CubicElasticModuli
  crack :: "RectilinearAnisotropicCrack option"

definition CubicCrystalCrack_init ::
  "root_finder \<Rightarrow> real \<Rightarrow> real \<Rightarrow> real \<Rightarrow> vec3 \<Rightarrow> vec3 \<Rightarrow> string \<Rightarrow> error + CubicCrystalCrack" where
  "CubicCrystalCrack_init roots c11 c12 c44 crack_surface crack_front stress_state =
     (case CubicElasticModuli_init c11 c12 c44 of
        Inl e \<Rightarrow> Inl e
      | Inr E0 \<Rightarrow>
          (case rotate E0 (orientation crack_surface crack_front) of
             Inl e \<Rightarrow> Inl e
           | Inr (E1, _) \<Rightarrow>
               (case compliance E1 of
                  Inl e \<Rightarrow> Inl e
                | Inr S6 \<Rightarrow>
                    if stress_state = PLANE_STRESS then
                      (case set_plane_stress roots (S6 0 0) (S6 1 1) (S6 0 1)
                              (S6 0 5) (S6 1 5) (S6 5 5) of
                         Inl e \<Rightarrow> Inl e
                       | Inr c \<Rightarrow> Inr \<lparr>E = E1, crack = Some c\<rparr>)
                    else if stress_state = PLANE_STRAIN then
                      (case set_plane_strain roots (S6 0 0) (S6 1 1) (S6 2 2)
                              (S6 0 1) (S6 0 2) (S6 1 2)
                              (S6 0 5) (S6 1 5) (S6 2 5) (S6 5 5) of
                         Inl e \<Rightarrow> Inl e
                       | Inr c \<Rightarrow> Inr \<lparr>E = E1, crack = Some c\<rparr>)
                    else Inr \<lparr>E = E1, crack = None\<rparr>)))"

text \<open>
  Numpy arrays are lists along their first axis. A binary operation on two arrays
  broadcasts an array of length one and raises ValueError on any other mismatch of the
  lengths.
\<close>

definition np_binary :: "('a \<Rightarrow> 'a \<Rightarrow> 'a) \<Rightarrow> 'a list \<Rightarrow> 'a list \<Rightarrow> error + 'a list" where
  "np_binary f xs ys =
     (if length xs = length ys then Inr (map2 f xs ys)
      else if length xs = 1 then Inr (map (f (hd xs)) ys)
      else if length ys = 1 then Inr (map (\<lambda>x. f x (hd ys)) xs)
      else Inl ValueError)"

text \<open>
  One component of the pair that \<open>scale_displacements\<close> returns:
  \<open>ref_x + new_k/old_k*(x-ref_x)\<close>. The stress intensity factors are Python floats, whose
  division raises ZeroDivisionError.
\<close>

definition scale_component :: "real list \<Rightarrow> real list \<Rightarrow> real \<Rightarrow> real \<Rightarrow> error + real list" where
  "scale_component x ref_x old_k new_k =
     (if old_k = 0 then Inl ZeroDivisionError
      else case np_binary (-) x ref_x of
             Inl e \<Rightarrow> Inl e
           | Inr d \<Rightarrow> np_binary (+) ref_x (map (\<lambda>u. new_k / old_k * u) d))"

definition scale_displacements ::
  "real list \<Rightarrow> real list \<Rightarrow> real list \<Rightarrow> real list \<Rightarrow> real \<Rightarrow> real
     \<Rightarrow> error + real list \<times> real list" where
  "scale_displacements x y ref_x ref_y old_k new_k =
     (case scale_component x ref_x old_k new_k of
        Inl e \<Rightarrow> Inl e
      | Inr x' \<Rightarrow>
          (case scale_component y ref_y old_k new_k of
             Inl e \<Rightarrow> Inl e
           | Inr y' \<Rightarrow> Inr (x', y')))"

section \<open>crack.py: the thin-strip strain bookkeeping\<close>

text \<open>
  An \<open>Atoms\<close> object, as far as \<open>crack.py\<close> reads and writes it: the positions, the cell
  and the \<open>info\<close> dictionary. The dictionary is split by the type of its values: \<open>info\<close>
  holds the entries that are floats (\<open>OrigHeight\<close>, \<open>YoungsModulus\<close>, \<open>PoissonRatio_yx\<close>,
  \<open>strain\<close>, \<open>G\<close>, \<open>K\<close>), \<open>info3\<close> the entries that are triples (\<open>sigma0\<close>, \<open>CrackPos\<close>).
\<close>

record atoms =
  positions :: "vec3 list"
  cell :: matrix
  info :: "string \<rightharpoonup> real"
  info3 :: "string \<rightharpoonup> vec3"

text \<open>The per-atom stress tensor: one 3 by 3 block of an array of shape (N, 3, 3).\<close>

datatype mat33 = Mat33 real real real real real real real real real

text \<open>Keyword dictionaries of fit parameters, as association lists with distinct keys.\<close>

type_synonym dict = "(string \<times> real) list"

text \<open>
  \<open>crack.py\<close> reads the global names \<open>sqrt\<close>, \<open>MPA_SQRT_M\<close>, \<open>IrwinStressField\<close> and \<open>a\<close>
  in the functions below, and neither defines nor imports any of them (its imports
  are \<open>math\<close>, \<open>warnings\<close>, \<open>numpy as np\<close>, \<open>brentq\<close>, \<open>leastsq\<close>, \<open>NeighborList\<close>,
  \<open>CubicElasticModuli\<close>, \<open>MillerDirection\<close> and \<open>MillerPlane\<close>). Python looks a global name up
  when the line runs and raises NameError when the module's namespace does not hold
  it. The namespace is a parameter of the model, with \<open>None\<close> for an unbound name;
  \<open>crack_py\<close> is the namespace of the module as it is written.
\<close>

record globals =
  name_sqrt :: "(real \<Rightarrow> error + real) option"
  name_MPA_SQRT_M :: "real option"
  name_IrwinStressField :: "(dict \<Rightarrow> atoms \<Rightarrow> error + mat33 list) option"
  name_a :: "nat option"

definition crack_py :: globals where
  "crack_py = \<lparr>name_sqrt = None, name_MPA_SQRT_M = None,
                name_IrwinStressField = None, name_a = None\<rparr>"

definition info_get :: "atoms \<Rightarrow> string \<Rightarrow> error + real" where
  "info_get atoms key = (case info atoms key of None \<Rightarrow> Inl (KeyError key) | Some v \<Rightarrow> Inr v)"

definition info_set :: "string \<Rightarrow> real \<Rightarrow> atoms \<Rightarrow> atoms" where
  "info_set key v atoms = atoms\<lparr>info := (info atoms)(key \<mapsto> v)\<rparr>"

text \<open>\<open>.max()\<close> and \<open>.min()\<close> of a non-empty array.\<close>

definition np_max :: "real list \<Rightarrow> real" where
  "np_max xs = fold max (tl xs) (hd xs)"

definition np_min :: "real list \<Rightarrow> real" where
  "np_min xs = fold min (tl xs) (hd xs)"

fun x_of :: "vec3 \<Rightarrow> real" where
  "x_of (x, y, z) = x"

fun y_of :: "vec3 \<Rightarrow> real" where
  "y_of (x, y, z) = y"

text \<open>
  \<open>strain_to_G\<close>: \<open>0.5 * E / (1.0 - nu * nu) * strain * strain * orig_height\<close>, where the
  division is a division of Python floats.
\<close>

definition strain_to_G :: "real \<Rightarrow> real \<Rightarrow> real \<Rightarrow> real \<Rightarrow> error + real" where
  "strain_to_G strain youngs nu orig_height =
     (if 1 - nu * nu = 0 then Inl ZeroDivisionError
      else Inr (0.5 * youngs / (1 - nu * nu) * strain * strain * orig_height))"

text \<open>
  \<open>get_strain\<close>. The reductions \<open>.max()\<close> and \<open>.min()\<close> raise ValueError on an empty
  array; the division is a numpy division (the height is a numpy float), which does not
  raise: for \<open>OrigHeight = 0\<close> numpy returns an infinity or a NaN, and the division here
  0, so the strain is \<open>-1\<close> here and the statements about the strain are for a non-zero
  \<open>OrigHeight\<close>.
\<close>

definition get_strain :: "atoms \<Rightarrow> atoms \<times> (error + real)" where
  "get_strain atoms =
     (case info_get atoms ''OrigHeight'' of
        Inl e \<Rightarrow> (atoms, Inl e)
      | Inr orig_height \<Rightarrow>
          if positions atoms = [] then (atoms, Inl ValueError)
          else
            let ys = map y_of (positions atoms);
                current_height = np_max ys - np_min ys;
                strain = current_height / orig_height - 1
            in (info_set ''strain'' strain atoms, Inr strain))"

definition get_energy_release_rate :: "atoms \<Rightarrow> atoms \<times> (error + real)" where
  "get_energy_release_rate atoms =
     (case get_strain atoms of
        (atoms, Inl e) \<Rightarrow> (atoms, Inl e)
      | (atoms, Inr current_strain) \<Rightarrow>
          (case info_get atoms ''OrigHeight'' of
             Inl e \<Rightarrow> (atoms, Inl e)
           | Inr orig_height \<Rightarrow>
               (case info_get atoms ''YoungsModulus'' of
                  Inl e \<Rightarrow> (atoms, Inl e)
                | Inr youngs \<Rightarrow>
                    (case info_get atoms ''PoissonRatio_yx'' of
                       Inl e \<Rightarrow> (atoms, Inl e)
                     | Inr nu \<Rightarrow>
                         (case strain_to_G current_strain youngs nu orig_height of
                            Inl e \<Rightarrow> (atoms, Inl e)
                          | Inr G \<Rightarrow> (info_set ''G'' G atoms, Inr G))))))"

text \<open>
  \<open>get_stress_intensity_factor\<close>. Its last three lines are
  \<open>Ep = E/(1-nu**2)\<close>, \<open>K = sqrt(G*Ep)\<close>, \<open>atoms.info['K'] = K\<close>; the second one reads the
  global name \<open>sqrt\<close>.
\<close>

definition get_stress_intensity_factor :: "globals \<Rightarrow> atoms \<Rightarrow> atoms \<times> (error + real)" where
  "get_stress_intensity_factor g atoms =
     (case get_energy_release_rate atoms of
        (atoms, Inl e) \<Rightarrow> (atoms, Inl e)
      | (atoms, Inr G) \<Rightarrow>
          (case info_get atoms ''YoungsModulus'' of
             Inl e \<Rightarrow> (atoms, Inl e)
           | Inr youngs \<Rightarrow>
               (case info_get atoms ''PoissonRatio_yx'' of
                  Inl e \<Rightarrow> (atoms, Inl e)
                | Inr nu \<Rightarrow>
                    if 1 - nu\<^sup>2 = 0 then (atoms, Inl ZeroDivisionError)
                    else
                      let Ep = youngs / (1 - nu\<^sup>2) in
                      (case name_sqrt g of
                         None \<Rightarrow> (atoms, Inl (NameError ''sqrt''))
                       | Some sqrt_fn \<Rightarrow>
                           (case sqrt_fn (G * Ep) of
                              Inl e \<Rightarrow> (atoms, Inl e)
                            | Inr K \<Rightarrow> (info_set ''K'' K atoms, Inr K))))))"

section \<open>crack.py: fit_crack_stress_field\<close>

subsection \<open>Dictionaries\<close>

definition dict_get :: "dict \<Rightarrow> string \<Rightarrow> error + real" where
  "dict_get d key = (case map_of d key of None \<Rightarrow> Inl (KeyError key) | Some v \<Rightarrow> Inr v)"

definition dict_set :: "string \<Rightarrow> real \<Rightarrow> dict \<Rightarrow> dict" where
  "dict_set key v d = AList.update key v d"

definition dict_keys :: "dict \<Rightarrow> string list" where
  "dict_keys d = map fst d"

text \<open>\<open>d.update(other)\<close>.\<close>

definition dict_update :: "dict \<Rightarrow> dict \<Rightarrow> dict" where
  "dict_update d other = fold (\<lambda>(key, v). dict_set key v) other d"

text \<open>\<open>dict(zip(keys, values))\<close>.\<close>

definition dict_zip :: "string list \<Rightarrow> real list \<Rightarrow> dict" where
  "dict_zip ks vs = dict_update [] (zip ks vs)"

subsection \<open>Stress arrays and the caller's memory\<close>


text \<open>The assignment \<open>s[i, j] = v\<close> to one block, for indices below 3.\<close>

fun set_comp :: "nat \<times> nat \<Rightarrow> real \<Rightarrow> mat33 \<Rightarrow> mat33" where
  "set_comp (i, j) v (Mat33 xx xy xz yx yy yz zx zy zz) =
     (let r = [[xx, xy, xz], [yx, yy, yz], [zx, zy, zz]];
          r = r[i := (r ! i)[j := v]]
      in Mat33 (r ! 0 ! 0) (r ! 0 ! 1) (r ! 0 ! 2)
               (r ! 1 ! 0) (r ! 1 ! 1) (r ! 1 ! 2)
               (r ! 2 ! 0) (r ! 2 ! 1) (r ! 2 ! 2))"

fun entries :: "mat33 \<Rightarrow> real list" where
  "entries (Mat33 xx xy xz yx yy yz zx zy zz) = [xx, xy, xz, yx, yy, yz, zx, zy, zz]"

fun mat_scale :: "real \<Rightarrow> mat33 \<Rightarrow> mat33" where
  "mat_scale c (Mat33 xx xy xz yx yy yz zx zy zz) =
     Mat33 (c * xx) (c * xy) (c * xz) (c * yx) (c * yy) (c * yz) (c * zx) (c * zy) (c * zz)"

fun mat_add :: "mat33 \<Rightarrow> mat33 \<Rightarrow> mat33" where
  "mat_add (Mat33 xx xy xz yx yy yz zx zy zz) (Mat33 xx' xy' xz' yx' yy' yz' zx' zy' zz') =
     Mat33 (xx + xx') (xy + xy') (xz + xz') (yx + yx') (yy + yy') (yz + yz')
           (zx + zx') (zy + zy') (zz + zz')"

fun mat_sub :: "mat33 \<Rightarrow> mat33 \<Rightarrow> mat33" where
  "mat_sub (Mat33 xx xy xz yx yy yz zx zy zz) (Mat33 xx' xy' xz' yx' yy' yz' zx' zy' zz') =
     Mat33 (xx - xx') (xy - xy') (xz - xz') (yx - yx') (yy - yy') (yz - yz')
           (zx - zx') (zy - zy') (zz - zz')"

text \<open>
  The arrays \<open>sigma\<close> and \<open>avg_sigma\<close> that a caller passes are objects in the caller's
  memory, which the function can change in place: the memory maps addresses to
  arrays, and an argument is an address (or \<open>None\<close>). The local variable \<open>sigma\<close> refers
  either to such an object or to an array made during the call (the calculator's
  result, a copy).
\<close>

type_synonym addr = nat

type_synonym memory = "addr \<Rightarrow> mat33 list"

datatype array_ref = Caller addr | Fresh "mat33 list"

fun deref :: "memory \<Rightarrow> array_ref \<Rightarrow> mat33 list" where
  "deref mem (Caller a) = mem a"
| "deref mem (Fresh s) = s"

text \<open>An assignment \<open>sigma[:, i, j] = v\<close> through the variable \<open>sigma\<close>.\<close>

fun assign_comp :: "nat \<times> nat \<Rightarrow> real \<Rightarrow> memory \<times> array_ref \<Rightarrow> memory \<times> array_ref" where
  "assign_comp ij v (mem, Caller a) = (mem(a := map (set_comp ij v) (mem a)), Caller a)"
| "assign_comp ij v (mem, Fresh s) = (mem, Fresh (map (set_comp ij v) s))"

text \<open>Lines 798 to 803: zero the components out of the xy plane.\<close>

definition zero_out_of_plane :: "memory \<times> array_ref \<Rightarrow> memory \<times> array_ref" where
  "zero_out_of_plane ms =
     (let ms = assign_comp (2, 2) 0 ms;
          ms = assign_comp (0, 2) 0 ms;
          ms = assign_comp (2, 0) 0 ms;
          ms = assign_comp (1, 2) 0 ms;
          ms = assign_comp (2, 1) 0 ms
      in ms)"

text \<open>
  Lines 787 to 791: the local stresses. The calculator (\<open>calc\<close>, or the one of \<open>atoms\<close>)
  is outside the repository; \<open>calc_stresses\<close> is what its \<open>get_stresses(atoms)\<close> gives.
\<close>

definition local_stresses :: "error + mat33 list \<Rightarrow> addr option \<Rightarrow> error + array_ref" where
  "local_stresses calc_stresses sigma =
     (case sigma of
        Some a \<Rightarrow> Inr (Caller a)
      | None \<Rightarrow> (case calc_stresses of Inl e \<Rightarrow> Inl e | Inr s \<Rightarrow> Inr (Fresh s)))"

text \<open>
  Lines 793 to 796: \<open>avg_sigma[...] = np.exp(-avg_decay)*avg_sigma +
  (1.0 - np.exp(-avg_decay))*sigma\<close>, then \<open>sigma = avg_sigma.copy()\<close>. The sum raises
  ValueError when the shapes do not broadcast, the assignment when the sum does not
  have the shape of \<open>avg_sigma\<close>.
\<close>

definition exponential_average :: "real \<Rightarrow> mat33 list \<Rightarrow> mat33 list \<Rightarrow> error + mat33 list" where
  "exponential_average avg_decay avg s =
     np_binary mat_add (map (mat_scale (exp (- avg_decay))) avg)
                       (map (mat_scale (1 - exp (- avg_decay))) s)"

definition update_avg_sigma ::
  "real \<Rightarrow> addr option \<Rightarrow> memory \<times> array_ref \<Rightarrow> error + memory \<times> array_ref" where
  "update_avg_sigma avg_decay avg_sigma ms =
     (case avg_sigma of
        None \<Rightarrow> Inr ms
      | Some b \<Rightarrow>
          (case exponential_average avg_decay (fst ms b) (deref (fst ms) (snd ms)) of
             Inl e \<Rightarrow> Inl e
           | Inr new \<Rightarrow>
               if length new = length (fst ms b) then Inr ((fst ms)(b := new), Fresh new)
               else Inl ValueError))"

subsection \<open>The mask and the objective function\<close>

datatype mask = Ellipsis | Mask "bool list"

text \<open>Line 785: the distance of every atom from the tip estimate held in \<open>params\<close>.\<close>

definition radii :: "atoms \<Rightarrow> real \<Rightarrow> real \<Rightarrow> real list" where
  "radii atoms x0 y0 = map (\<lambda>p. sqrt ((x_of p - x0)\<^sup>2 + (y_of p - y0)\<^sup>2)) (positions atoms)"

text \<open>Lines 805 to 808.\<close>

definition fit_mask :: "(real \<times> real) option \<Rightarrow> real list \<Rightarrow> mask" where
  "fit_mask r_range r =
     (case r_range of
        None \<Rightarrow> Ellipsis
      | Some (rmin, rmax) \<Rightarrow> Mask (map (\<lambda>ri. ri > rmin \<and> ri < rmax) r))"

text \<open>
  \<open>s[mask, :, :]\<close>: all blocks for \<open>Ellipsis\<close>, the blocks at the \<open>True\<close> positions of a
  boolean mask, IndexError when the mask does not have the length of the array.
\<close>

definition select :: "mask \<Rightarrow> 'a list \<Rightarrow> error + 'a list" where
  "select m s =
     (case m of
        Ellipsis \<Rightarrow> Inr s
      | Mask bs \<Rightarrow>
          if length bs = length s then Inr (map snd (filter fst (zip bs s)))
          else Inl IndexError)"

text \<open>
  The nested \<open>objective_function\<close>. \<open>fix_params\<close> is the dictionary after line 780, so it
  is never \<open>None\<close> here. The class \<open>IrwinStressField\<close> is read from the global namespace.
\<close>

definition objective_function ::
  "globals \<Rightarrow> atoms \<Rightarrow> dict \<Rightarrow> mask \<Rightarrow> mat33 list \<Rightarrow> string list \<Rightarrow> real list \<Rightarrow> error + real list" where
  "objective_function g atoms fix_params m s var_params values =
     (let params = dict_update (dict_zip var_params values) fix_params in
      case name_IrwinStressField g of
        None \<Rightarrow> Inl (NameError ''IrwinStressField'')
      | Some irwin \<Rightarrow>
          (case irwin params atoms of
             Inl e \<Rightarrow> Inl e
           | Inr irwin_sigma \<Rightarrow>
               (case select m s of
                  Inl e \<Rightarrow> Inl e
                | Inr s_masked \<Rightarrow>
                    (case select m irwin_sigma of
                       Inl e \<Rightarrow> Inl e
                     | Inr irwin_masked \<Rightarrow>
                         (case np_binary mat_sub s_masked irwin_masked of
                            Inl e \<Rightarrow> Inl e
                          | Inr delta_sigma \<Rightarrow> Inr (concat (map entries delta_sigma)))))))"

subsection \<open>The initial guess\<close>

definition has_key :: "dict \<Rightarrow> string \<Rightarrow> bool" where
  "has_key d key = (key \<in> set (dict_keys d))"

text \<open>
  Lines 742 to 750: the guess for the stress intensity factor. Only a KeyError of
  \<open>get_stress_intensity_factor\<close> is caught; the handler reads the global name
  \<open>MPA_SQRT_M\<close>.
\<close>

definition guess_K :: "globals \<Rightarrow> atoms \<Rightarrow> dict \<Rightarrow> atoms \<times> (error + dict)" where
  "guess_K g atoms params =
     (if has_key params ''K'' then (atoms, Inr params)
      else case info atoms ''K'' of
             Some k \<Rightarrow> (atoms, Inr (dict_set ''K'' k params))
           | None \<Rightarrow>
               (case get_stress_intensity_factor g atoms of
                  (atoms, Inr k) \<Rightarrow> (atoms, Inr (dict_set ''K'' k params))
                | (atoms, Inl (KeyError key)) \<Rightarrow>
                    (case name_MPA_SQRT_M g of
                       None \<Rightarrow> (atoms, Inl (NameError ''MPA_SQRT_M''))
                     | Some c \<Rightarrow> (atoms, Inr (dict_set ''K'' (1 * c) params)))
                | (atoms, Inl e) \<Rightarrow> (atoms, Inl e)))"

definition zero_far_field :: "dict \<Rightarrow> dict" where
  "zero_far_field params = dict_set ''sxy0'' 0 (dict_set ''sxx0'' 0 (dict_set ''syy0'' 0 params))"

text \<open>
  Lines 752 to 767: the guess for the far-field stress. A missing key inside the \<open>try\<close>
  block leads to the zero guess; the division \<open>E/(1-nu**2)\<close> is one of Python floats and
  its ZeroDivisionError is not caught.
\<close>

definition guess_far_field :: "atoms \<Rightarrow> dict \<Rightarrow> error + dict" where
  "guess_far_field atoms params =
     (if has_key params ''sxx0'' \<and> has_key params ''syy0'' \<and> has_key params ''sxy0''
      then Inr params
      else case info3 atoms ''sigma0'' of
             Some (sxx, syy, sxy) \<Rightarrow>
               Inr (dict_set ''sxy0'' sxy (dict_set ''syy0'' syy (dict_set ''sxx0'' sxx params)))
           | None \<Rightarrow>
               (case info atoms ''YoungsModulus'' of
                  None \<Rightarrow> Inr (zero_far_field params)
                | Some youngs \<Rightarrow>
                    (case info atoms ''PoissonRatio_yx'' of
                       None \<Rightarrow> Inr (zero_far_field params)
                     | Some nu \<Rightarrow>
                         if 1 - nu\<^sup>2 = 0 then Inl ZeroDivisionError
                         else
                           (case info atoms ''strain'' of
                              None \<Rightarrow> Inr (zero_far_field params)
                            | Some strain \<Rightarrow>
                                let Ep = youngs / (1 - nu\<^sup>2);
                                    syy = Ep * strain
                                in Inr (dict_set ''sxy0'' 0
                                         (dict_set ''sxx0'' (nu * syy)
                                           (dict_set ''syy0'' syy params)))))))"

text \<open>
  Lines 769 to 776: the guess for the crack position. The fallback reduces over the
  x coordinates, which raises ValueError for an empty array.
\<close>

definition guess_position :: "atoms \<Rightarrow> dict \<Rightarrow> error + dict" where
  "guess_position atoms params =
     (if has_key params ''x0'' \<and> has_key params ''y0'' then Inr params
      else case info3 atoms ''CrackPos'' of
             Some (cx, cy, cz) \<Rightarrow> Inr (dict_set ''y0'' cy (dict_set ''x0'' cx params))
           | None \<Rightarrow>
               if positions atoms = [] then Inl ValueError
               else
                 let xs = map x_of (positions atoms)
                 in Inr (dict_set ''y0'' 0
                          (dict_set ''x0'' (np_min xs + (np_max xs - np_min xs) / 3) params)))"

fun or_empty :: "dict option \<Rightarrow> dict" where
  "or_empty None = []"
| "or_empty (Some d) = d"

text \<open>Lines 738 to 781: the parameter dictionary with which the fit starts.\<close>

definition initial_guess ::
  "globals \<Rightarrow> atoms \<Rightarrow> dict option \<Rightarrow> dict option \<Rightarrow> atoms \<times> (error + dict)" where
  "initial_guess g atoms initial_params fix_params =
     (let params = dict_update [] (or_empty initial_params) in
      case guess_K g atoms params of
        (atoms, Inl e) \<Rightarrow> (atoms, Inl e)
      | (atoms, Inr params) \<Rightarrow>
          (case guess_far_field atoms params of
             Inl e \<Rightarrow> (atoms, Inl e)
           | Inr params \<Rightarrow>
               (case guess_position atoms params of
                  Inl e \<Rightarrow> (atoms, Inl e)
                | Inr params \<Rightarrow> (atoms, Inr (dict_update params (or_empty fix_params))))))"

subsection \<open>The fit\<close>

text \<open>
  \<open>scipy.optimize.leastsq\<close> with \<open>full_output=True\<close> is outside the repository: it is the
  parameter \<open>leastsq\<close>, a function of the objective function and the initial values that
  returns the fitted values, the covariance matrix (or \<open>None\<close>) and the status code
  (the entries \<open>infodict\<close> and \<open>mesg\<close> of numpy's tuple are never read), or raises.
\<close>

type_synonym leastsq_result = "real list \<times> real list list option \<times> int"

type_synonym solver = "(real list \<Rightarrow> error + real list) \<Rightarrow> real list \<Rightarrow> error + leastsq_result"

text \<open>\<open>[params[key] for key in var_params]\<close>.\<close>

fun lookup_all :: "dict \<Rightarrow> string list \<Rightarrow> error + real list" where
  "lookup_all d [] = Inr []"
| "lookup_all d (key # keys) =
     (case dict_get d key of
        Inl e \<Rightarrow> Inl e
      | Inr v \<Rightarrow> (case lookup_all d keys of Inl e \<Rightarrow> Inl e | Inr vs \<Rightarrow> Inr (v # vs)))"

text \<open>Line 822: the sorted names of the parameters that vary in the fit.\<close>

definition free_params :: "dict \<Rightarrow> dict \<Rightarrow> string list" where
  "free_params params fix_params =
     sort (filter (\<lambda>key. key \<notin> set (dict_keys fix_params)) (dict_keys params))"

text \<open>\<open>np.diag\<close> of the square covariance matrix.\<close>

definition diag :: "real list list \<Rightarrow> real list" where
  "diag c = map (\<lambda>i. c ! i ! i) [0..<length c]"

text \<open>
  Lines 834 to 841: the standard errors. The quotient is a numpy division and
  \<open>np.sqrt\<close> does not raise (numpy gives NaN for a negative entry, the model the
  value of \<open>sqrt\<close>).
\<close>

definition standard_errors ::
  "(real list \<Rightarrow> error + real list) \<Rightarrow> nat \<Rightarrow> string list \<Rightarrow> real list \<Rightarrow> real list list option
     \<Rightarrow> error + dict" where
  "standard_errors objective sigma_size var_params fitted_params cov =
     (case cov of
        None \<Rightarrow> Inr (dict_zip var_params (replicate (length fitted_params) 0))
      | Some c \<Rightarrow>
          (case objective fitted_params of
             Inl e \<Rightarrow> Inl e
           | Inr residual \<Rightarrow>
               let s_sq = sum_list (map (\<lambda>u. u\<^sup>2) residual)
                            / (real sigma_size - real (length fitted_params))
               in Inr (dict_zip var_params (map (\<lambda>v. sqrt (v * s_sq)) (diag c)))))"

text \<open>Lines 850 to 852: the fitted values go into \<open>atoms.info\<close>, one entry after the other.\<close>

definition store_fit :: "atoms \<Rightarrow> dict \<Rightarrow> atoms \<times> (error + unit)" where
  "store_fit atoms params =
     (case dict_get params ''K'' of
        Inl e \<Rightarrow> (atoms, Inl e)
      | Inr k \<Rightarrow>
          let atoms = info_set ''K'' k atoms in
          (case lookup_all params [''sxx0'', ''syy0'', ''sxy0''] of
             Inr [sxx, syy, sxy] \<Rightarrow>
               let atoms = atoms\<lparr>info3 := (info3 atoms)(''sigma0'' \<mapsto> (sxx, syy, sxy))\<rparr> in
               (case lookup_all params [''x0'', ''y0''] of
                  Inr [x0, y0] \<Rightarrow>
                    (atoms\<lparr>info3 := (info3 atoms)(''CrackPos'' \<mapsto> (x0, y0, cell atoms 2 2 / 2))\<rparr>,
                     Inr ())
                | Inr other \<Rightarrow> (atoms, Inl ValueError)
                | Inl e \<Rightarrow> (atoms, Inl e))
           | Inr other \<Rightarrow> (atoms, Inl ValueError)
           | Inl e \<Rightarrow> (atoms, Inl e)))"

text \<open>Lines 813 to 854, for the local array \<open>s\<close> and the mask.\<close>

definition solve_and_store ::
  "globals \<Rightarrow> solver \<Rightarrow> atoms \<Rightarrow> dict \<Rightarrow> mask \<Rightarrow> mat33 list \<Rightarrow> dict \<Rightarrow> atoms \<times> (error + dict \<times> dict)" where
  "solve_and_store g leastsq atoms fix_params m s params =
     (let var_params = free_params params fix_params;
          objective = objective_function g atoms fix_params m s var_params
      in case lookup_all params var_params of
           Inl e \<Rightarrow> (atoms, Inl e)
         | Inr initial_params \<Rightarrow>
             (case leastsq objective initial_params of
                Inl e \<Rightarrow> (atoms, Inl e)
              | Inr (fitted_params, cov, success) \<Rightarrow>
                  let params = dict_update (dict_zip var_params fitted_params) fix_params in
                  (case standard_errors objective (9 * length s) var_params fitted_params cov of
                     Inl e \<Rightarrow> (atoms, Inl e)
                   | Inr err \<Rightarrow>
                       (case store_fit atoms params of
                          (atoms, Inl e) \<Rightarrow> (atoms, Inl e)
                        | (atoms, Inr u) \<Rightarrow> (atoms, Inr (params, err))))))"

text \<open>Lines 787 to 803: the local stresses, the running average, the zeroed components.\<close>

definition prepare_stresses ::
  "error + mat33 list \<Rightarrow> memory \<Rightarrow> addr option \<Rightarrow> addr option \<Rightarrow> real \<Rightarrow> memory \<times> (error + array_ref)" where
  "prepare_stresses calc_stresses mem sigma avg_sigma avg_decay =
     (case local_stresses calc_stresses sigma of
        Inl e \<Rightarrow> (mem, Inl e)
      | Inr ref \<Rightarrow>
          (case update_avg_sigma avg_decay avg_sigma (mem, ref) of
             Inl e \<Rightarrow> (mem, Inl e)
           | Inr ms \<Rightarrow> (fst (zero_out_of_plane ms), Inr (snd (zero_out_of_plane ms)))))"

text \<open>
  \<open>fit_crack_stress_field\<close> for \<open>verbose=False\<close> (the printing of the verbose mode is not
  modelled). It returns the caller's memory and the \<open>atoms\<close> object as the call leaves
  them, and the pair \<open>(params, err)\<close> or the error raised.
\<close>

definition fit_crack_stress_field ::
  "globals \<Rightarrow> solver \<Rightarrow> error + mat33 list \<Rightarrow> memory \<Rightarrow> atoms \<Rightarrow> (real \<times> real) option
     \<Rightarrow> dict option \<Rightarrow> dict option \<Rightarrow> addr option \<Rightarrow> addr option \<Rightarrow> real
     \<Rightarrow> memory \<times> atoms \<times> (error + dict \<times> dict)" where
  "fit_crack_stress_field g leastsq calc_stresses mem atoms r_range initial_params fix_params
       sigma avg_sigma avg_decay =
     (case initial_guess g atoms initial_params fix_params of
        (atoms, Inl e) \<Rightarrow> (mem, atoms, Inl e)
      | (atoms, Inr params) \<Rightarrow>
          (case lookup_all params [''x0'', ''y0''] of
             Inr [x0, y0] \<Rightarrow>
               let r = radii atoms x0 y0 in
               (case prepare_stresses calc_stresses mem sigma avg_sigma avg_decay of
                  (mem, Inl e) \<Rightarrow> (mem, atoms, Inl e)
                | (mem, Inr ref) \<Rightarrow>
                    (case solve_and_store g leastsq atoms (or_empty fix_params)
                            (fit_mask r_range r) (deref mem ref) params of
                       (atoms, res) \<Rightarrow> (mem, atoms, res)))
           | Inr other \<Rightarrow> (mem, atoms, Inl ValueError)
           | Inl e \<Rightarrow> (mem, atoms, Inl e)))"

subsection \<open>crack_tip_position\<close>


section \<open>Auxiliary notions and example inputs\<close>




text \<open>
  The object that \<open>CubicElasticModuli(0.1, 0.2, 0.3)\<close> constructs in double precision. The
  constants are the doubles nearest to 0.1, 0.2 and 0.3, written as a significand over a
  power of two.
\<close>

definition example_double_moduli :: CubicElasticModuli where
  "example_double_moduli =
     \<lparr>C11 = 7205759403792794 / 2 ^ 56, C12 = 7205759403792794 / 2 ^ 55,
      C44 = 5404319552844595 / 2 ^ 54,
      la = 7205759403792794 / 2 ^ 55, mu = 5404319552844595 / 2 ^ 54,
      al = - (6305039478318694 / 2 ^ 53),
      C11_rot = [7205759403792800 / 2 ^ 56, 7205759403792800 / 2 ^ 56, 7205759403792800 / 2 ^ 56],
      C12_rot = [7205759403792794 / 2 ^ 55, 7205759403792794 / 2 ^ 55, 7205759403792794 / 2 ^ 55],
      C44_rot = [5404319552844595 / 2 ^ 54, 5404319552844595 / 2 ^ 54, 5404319552844595 / 2 ^ 54]\<rparr>"

text \<open>
  A root finder for the examples, given on two coefficient lists. For the quartic
  \<open>\<mu>\<^sup>4 + 5 \<mu>\<^sup>2 + 4\<close> it returns the four roots \<open>2i, -2i, i, -i\<close>: the pair of larger modulus
  first and each root before its conjugate, the order of numpy's eigenvalue routine. For
  the list \<open>[0, 0, 1, 0, 1]\<close> it returns the two roots \<open>i, -i\<close> of \<open>\<mu>\<^sup>2 + 1\<close>: \<open>np.poly1d\<close>
  strips leading zero coefficients, so the polynomial it is left with has degree 2.
\<close>

definition example_roots :: root_finder where
  "example_roots c =
     (if c = [1, 0, 5, 0, 4] then [2 * \<i>, - (2 * \<i>), \<i>, - \<i>]
      else if c = [0, 0, 1, 0, 1] then [\<i>, - \<i>]
      else [])"

text \<open>
  The crack solution that \<open>set_plane_stress(1, 4, 0, 0, 0, 5)\<close> configures with these
  roots.
\<close>

definition example_crack :: RectilinearAnisotropicCrack where
  "example_crack =
     \<lparr>a11 = 1, a22 = 4, a12 = 0, a16 = 0, a26 = 0, a66 = 5,
      mu1 = 2 * \<i>, mu2 = \<i>,
      p1 = - 4, p2 = - 1, q1 = - (2 * \<i>), q2 = - (4 * \<i>),
      h1 = - \<i>, h2 = - (2 * \<i>), h3 = - (4 * \<i>), h4 = 8, h5 = 2\<rparr>"

text \<open>
  A strip of two atoms, 3 high, with \<open>OrigHeight\<close> 2, \<open>YoungsModulus\<close> 3 and
  \<open>PoissonRatio_yx\<close> 0.5 in its \<open>info\<close> dictionary.
\<close>

definition strip_atoms :: atoms where
  "strip_atoms =
     \<lparr>positions = [(0, 0, 0), (0, 3, 0)], cell = eye,
      info = [''OrigHeight'' \<mapsto> 2, ''YoungsModulus'' \<mapsto> 3, ''PoissonRatio_yx'' \<mapsto> 1 / 2],
      info3 = Map.empty\<rparr>"

text \<open>
  The namespace of the module with one change: \<open>sqrt\<close> bound to \<open>math.sqrt\<close>, as
  \<open>from math import sqrt\<close> would do.
\<close>

definition bound_sqrt :: globals where
  "bound_sqrt = crack_py\<lparr>name_sqrt := Some math_sqrt\<rparr>"

text \<open>
  Three atoms at the distances 5, 10 and 50 from the origin, with an empty \<open>info\<close>
  dictionary.
\<close>

definition fit_atoms :: atoms where
  "fit_atoms =
     \<lparr>positions = [(3, 4, 0), (6, 8, 0), (30, 40, 0)], cell = eye,
      info = Map.empty, info3 = Map.empty\<rparr>"

text \<open>Initial values for all six parameters of the fit, with the tip at the origin.\<close>

definition fit_params :: dict where
  "fit_params = [(''K'', 1), (''x0'', 0), (''y0'', 0), (''sxx0'', 0), (''syy0'', 0), (''sxy0'', 0)]"

text \<open>Per-atom stresses for the three atoms.\<close>

definition fit_stresses :: "mat33 list" where
  "fit_stresses = [Mat33 1 2 3 4 5 6 7 8 9, Mat33 11 12 13 14 15 16 17 18 19,
                   Mat33 21 22 23 24 25 26 27 28 29]"




text \<open>
  The namespace of the module with \<open>IrwinStressField\<close> bound to a class whose
  \<open>get_stresses\<close> returns the zero field.
\<close>

definition zero_field :: globals where
  "zero_field = crack_py\<lparr>name_IrwinStressField :=
     Some (\<lambda>params atoms. Inr (replicate (length (positions atoms)) (Mat33 0 0 0 0 0 0 0 0 0)))\<rparr>"





text \<open>A solver that behaves as \<open>leastsq\<close> does, but reports the status code \<open>c\<close>.\<close>

definition with_status :: "int \<Rightarrow> solver \<Rightarrow> solver" where
  "with_status c leastsq objective initial =
     (case leastsq objective initial of
        Inl e \<Rightarrow> Inl e
      | Inr (fitted_params, cov, success) \<Rightarrow> Inr (fitted_params, cov, c))"

section \<open>Properties of the rotation\<close>

lemma not_a_rotation_eye: "\<not> not_a_rotation eye"
  by (simp add: not_a_rotation_def dot_transpose_def eye_def range3_def tol_def)

lemma CubicElasticModuli_init_ok:
  "CubicElasticModuli_init c11 c12 c44 =
     Inr \<lparr>C11 = c11, C12 = c12, C44 = c44, la = c12, mu = c44, al = c11 - c12 - 2 * c44,
          C11_rot = [c11, c11, c11], C12_rot = [c12, c12, c12], C44_rot = [c44, c44, c44]\<rparr>"
  by (simp add: CubicElasticModuli_init_def rotate_def not_a_rotation_eye store_rotated_def
      t_def isotropic_part_def eye_def range3_def Let_def)










lemma not_a_rotation_iff:
  "not_a_rotation A \<longleftrightarrow> (\<exists>i<3. \<exists>j<3. \<bar>dot_transpose A i j - eye i j\<bar> > tol)"
proof -
  have s: "set range3 = {n. n < 3}" by (auto simp: range3_def)
  show ?thesis by (simp add: not_a_rotation_def list_ex_iff s)
qed







lemma below_3: "(\<forall>i<3. P (i::nat)) \<longleftrightarrow> P 0 \<and> P 1 \<and> P 2"
proof -
  have "(i::nat) < 3 \<longleftrightarrow> i = 0 \<or> i = 1 \<or> i = 2" for i by auto
  then show ?thesis by auto
qed


subsection \<open>The rotation by the identity in rounded arithmetic\<close>

lemma dot_transpose_fl_exact: "dot_transpose_fl (\<lambda>x. x) A i j = dot_transpose A i j"
  by (simp add: dot_transpose_fl_def dot_transpose_def fl_sum_def range3_def)

lemma rotate_entry_fl_exact: "rotate_entry_fl (\<lambda>x. x) self A = rotate_entry self A"
proof
  fix idx
  show "rotate_entry_fl (\<lambda>x. x) self A idx = rotate_entry self A idx"
    by (cases idx) (simp add: fl_sum_def range3_def isotropic_part_fl_def isotropic_part_def)
qed

lemma rotate_fl_exact: "rotate_fl (\<lambda>x. x) self A = rotate self A"
  by (simp add: rotate_fl_def rotate_def not_a_rotation_fl_def not_a_rotation_def
      dot_transpose_fl_exact rotate_entry_fl_exact)

lemma CubicElasticModuli_init_fl_exact:
  "CubicElasticModuli_init_fl (\<lambda>x. x) c11 c12 c44 = CubicElasticModuli_init c11 c12 c44"
  by (simp add: CubicElasticModuli_init_fl_def CubicElasticModuli_init_def rotate_fl_exact)

lemma eye_values:
  "eye 0 0 = 1" "eye 0 1 = 0" "eye 0 2 = 0"
  "eye 1 0 = 0" "eye 1 1 = 1" "eye 1 2 = 0"
  "eye 2 0 = 0" "eye 2 1 = 0" "eye 2 2 = 1"
  "eye 0 (Suc 0) = 0" "eye (Suc 0) 0 = 0" "eye (Suc 0) (Suc 0) = 1" "eye (Suc 0) 2 = 0"
  "eye 2 (Suc 0) = 0"
  by (simp_all add: eye_def)

lemma not_a_rotation_fl_eye:
  assumes "fl 0 = 0" "fl 1 = 1" "0 \<le> fl tol"
  shows "\<not> not_a_rotation_fl fl eye"
  using assms
  by (simp add: not_a_rotation_fl_def dot_transpose_fl_def fl_sum_def range3_def eye_values)

lemma rotate_entries_fl_eye:
  assumes "fl 0 = 0" "fl 1 = 1" "fl (la self) = la self" "fl (mu self) = mu self"
  shows "map (rotate_entry_fl fl self eye) t =
     [fl (fl (fl (la self + mu self) + mu self) + fl (al self * 1)),
      fl (fl (fl (la self + mu self) + mu self) + fl (al self * 1)),
      fl (fl (fl (la self + mu self) + mu self) + fl (al self * 1)),
      la self, la self, la self, mu self, mu self, mu self]"
  using assms
  by (simp add: t_def isotropic_part_fl_def fl_sum_def range3_def eye_values Let_def)


lemma rotate_fl_eye:
  assumes "fl 0 = 0" "fl 1 = 1" "0 \<le> fl tol" "fl (la self) = la self" "fl (mu self) = mu self"
  shows "rotate_fl fl self eye =
     Inr (store_rotated self
       [fl (fl (fl (la self + mu self) + mu self) + fl (al self * 1)),
        fl (fl (fl (la self + mu self) + mu self) + fl (al self * 1)),
        fl (fl (fl (la self + mu self) + mu self) + fl (al self * 1)),
        la self, la self, la self, mu self, mu self, mu self])"
  using assms
  by (simp only: rotate_fl_def not_a_rotation_fl_eye rotate_entries_fl_eye if_False)

lemma CubicElasticModuli_init_fl_value:
  assumes "fl 0 = 0" "fl 1 = 1" "0 \<le> fl tol" "fl c12 = c12" "fl c44 = c44"
  shows "CubicElasticModuli_init_fl fl c11 c12 c44 =
     Inr \<lparr>C11 = c11, C12 = c12, C44 = c44, la = c12, mu = c44,
          al = fl (fl (c11 - c12) - fl (2 * c44)),
          C11_rot = replicate 3 (fl (fl (fl (c12 + c44) + c44)
                                      + fl (fl (fl (c11 - c12) - fl (2 * c44)) * 1))),
          C12_rot = [c12, c12, c12], C44_rot = [c44, c44, c44]\<rparr>"
proof -
  let ?self = "\<lparr>C11 = c11, C12 = c12, C44 = c44,
                  la = c12, mu = c44, al = fl (fl (c11 - c12) - fl (2 * c44)),
                  C11_rot = [], C12_rot = [], C44_rot = []\<rparr>"
  have "fl (la ?self) = la ?self" "fl (mu ?self) = mu ?self"
    using assms by simp_all
  note r = rotate_fl_eye [OF assms(1,2,3) this]
  show ?thesis
    unfolding CubicElasticModuli_init_fl_def Let_def r
    by (simp add: store_rotated_def numeral_3_eq_3 Let_def)
qed

lemma rel_delta:
  fixes x y u :: real
  assumes "\<bar>y - x\<bar> \<le> u * \<bar>x\<bar>" and "0 \<le> u"
  obtains d where "y = x * (1 + d)" "\<bar>d\<bar> \<le> u"
proof (cases "x = 0")
  case True
  with assms have "y = x * (1 + 0)" "\<bar>0 :: real\<bar> \<le> u" by simp_all
  then show ?thesis by (rule that)
next
  case False
  have "y = x * (1 + (y - x) / x)"
    using False by (simp add: field_simps)
  moreover have "\<bar>(y - x) / x\<bar> \<le> u"
    using assms(1) False by (simp add: abs_divide field_simps)
  ultimately show ?thesis by (rule that)
qed

lemma factor_step:
  fixes p P d u :: real
  assumes "\<bar>p - 1\<bar> \<le> P - 1" "\<bar>d\<bar> \<le> u"
  shows "\<bar>p * (1 + d) - 1\<bar> \<le> P * (1 + u) - 1"
proof -
  have "p * (1 + d) - 1 = (p - 1) * (1 + d) + d"
    by (simp add: algebra_simps)
  moreover have "\<bar>(p - 1) * (1 + d)\<bar> \<le> (P - 1) * (1 + u)"
    unfolding abs_mult using assms by (intro mult_mono) auto
  ultimately have "\<bar>p * (1 + d) - 1\<bar> \<le> (P - 1) * (1 + u) + u"
    using assms(2) by linarith
  then show ?thesis by (simp add: algebra_simps)
qed

lemma four_factors:
  fixes a b c d u :: real
  assumes "\<bar>a\<bar> \<le> u" "\<bar>b\<bar> \<le> u" "\<bar>c\<bar> \<le> u" "\<bar>d\<bar> \<le> u"
  shows "\<bar>(1 + a) * (1 + b) * (1 + c) * (1 + d) - 1\<bar> \<le> (1 + u) ^ 4 - 1"
proof -
  have "\<bar>(1 :: real) - 1\<bar> \<le> 1 - 1" by simp
  from factor_step [OF this assms(1)] have "\<bar>1 * (1 + a) - 1\<bar> \<le> 1 * (1 + u) - 1" .
  from factor_step [OF this assms(2)]
  have "\<bar>1 * (1 + a) * (1 + b) - 1\<bar> \<le> 1 * (1 + u) * (1 + u) - 1" .
  from factor_step [OF this assms(3)]
  have "\<bar>1 * (1 + a) * (1 + b) * (1 + c) - 1\<bar> \<le> 1 * (1 + u) * (1 + u) * (1 + u) - 1" .
  from factor_step [OF this assms(4)]
  have "\<bar>1 * (1 + a) * (1 + b) * (1 + c) * (1 + d) - 1\<bar>
          \<le> 1 * (1 + u) * (1 + u) * (1 + u) * (1 + u) - 1" .
  then show ?thesis
    by (simp add: power4_eq_xxxx)
qed

lemma scaled_error:
  fixes x p g :: real
  assumes "\<bar>p - 1\<bar> \<le> g"
  shows "\<bar>x * (p - 1)\<bar> \<le> g * \<bar>x\<bar>"
proof -
  have "\<bar>x * (p - 1)\<bar> = \<bar>x\<bar> * \<bar>p - 1\<bar>" by (simp add: abs_mult)
  also have "\<dots> \<le> \<bar>x\<bar> * g" using assms by (intro mult_left_mono) auto
  finally show ?thesis by (simp add: mult.commute)
qed

lemma rounded_sum_error:
  fixes fl :: rounding
  assumes rel: "\<forall>x. \<bar>fl x - x\<bar> \<le> u * \<bar>x\<bar>"
  shows "\<bar>fl (fl (fl (c12 + c44) + c44) + fl (fl (fl (c11 - c12) - fl (2 * c44)) * 1)) - c11\<bar>
           \<le> ((1 + u) ^ 4 - 1) * (\<bar>c11\<bar> + 2 * \<bar>c12\<bar> + 4 * \<bar>c44\<bar>)"
proof -
  let ?g = "(1 + u) ^ 4 - 1"
  have u: "0 \<le> u"
  proof -
    have "\<bar>fl 1 - 1\<bar> \<le> u * \<bar>1\<bar>" using rel by blast
    then show ?thesis by simp
  qed
  have r: "\<bar>fl x - x\<bar> \<le> u * \<bar>x\<bar>" for x using rel by blast
  define h2 where "h2 = fl (c12 + c44)"
  define h3 where "h3 = fl (h2 + c44)"
  define a1 where "a1 = fl (c11 - c12)"
  define m2 where "m2 = fl (2 * c44)"
  define a where "a = fl (a1 - m2)"
  define b where "b = fl (a * 1)"
  define c where "c = fl (h3 + b)"
  obtain d1 where d1: "h2 = (c12 + c44) * (1 + d1)" "\<bar>d1\<bar> \<le> u"
    unfolding h2_def using rel_delta [OF r u] by blast
  obtain d2 where d2: "h3 = (h2 + c44) * (1 + d2)" "\<bar>d2\<bar> \<le> u"
    unfolding h3_def using rel_delta [OF r u] by blast
  obtain d3 where d3: "a1 = (c11 - c12) * (1 + d3)" "\<bar>d3\<bar> \<le> u"
    unfolding a1_def using rel_delta [OF r u] by blast
  obtain d4 where d4: "m2 = (2 * c44) * (1 + d4)" "\<bar>d4\<bar> \<le> u"
    unfolding m2_def using rel_delta [OF r u] by blast
  obtain d5 where d5: "a = (a1 - m2) * (1 + d5)" "\<bar>d5\<bar> \<le> u"
    unfolding a_def using rel_delta [OF r u] by blast
  obtain d7 where d7: "b = (a * 1) * (1 + d7)" "\<bar>d7\<bar> \<le> u"
    unfolding b_def using rel_delta [OF r u] by blast
  obtain d6 where d6: "c = (h3 + b) * (1 + d6)" "\<bar>d6\<bar> \<le> u"
    unfolding c_def using rel_delta [OF r u] by blast
  have z: "\<bar>0 :: real\<bar> \<le> u" using u by simp
  define e1 e2 e3 e4 e5 e6 e7 where e: "e1 = 1 + d1" "e2 = 1 + d2" "e3 = 1 + d3" "e4 = 1 + d4"
    "e5 = 1 + d5" "e6 = 1 + d6" "e7 = 1 + d7"
  define p1 p2 p3 p4 where p: "p1 = e1 * e2 * e6 * (1 + 0)" "p2 = e2 * e6 * (1 + 0) * (1 + 0)"
    "p3 = e3 * e5 * e7 * e6" "p4 = e4 * e5 * e7 * e6"
  have p1: "\<bar>p1 - 1\<bar> \<le> ?g" unfolding p e by (rule four_factors [OF d1(2) d2(2) d6(2) z])
  have p2: "\<bar>p2 - 1\<bar> \<le> ?g" unfolding p e by (rule four_factors [OF d2(2) d6(2) z z])
  have p3: "\<bar>p3 - 1\<bar> \<le> ?g" unfolding p e by (rule four_factors [OF d3(2) d5(2) d7(2) d6(2)])
  have p4: "\<bar>p4 - 1\<bar> \<le> ?g" unfolding p e by (rule four_factors [OF d4(2) d5(2) d7(2) d6(2)])
  have "c = (((c12 + c44) * e1 + c44) * e2 + (((c11 - c12) * e3 - (2 * c44) * e4) * e5 * 1) * e7) * e6"
    unfolding e d6(1) d7(1) d5(1) d4(1) d3(1) d2(1) d1(1) by (simp only: mult_1_right)
  also have "\<dots> = (c12 + c44) * p1 + c44 * p2 + (c11 - c12) * p3 - (2 * c44) * p4"
    unfolding p by (simp add: algebra_simps)
  finally have "c - c11 = (c12 + c44) * (p1 - 1) + c44 * (p2 - 1) + (c11 - c12) * (p3 - 1)
                  - (2 * c44) * (p4 - 1)"
    by (simp add: algebra_simps)
  then have "\<bar>c - c11\<bar> \<le> ?g * \<bar>c12 + c44\<bar> + ?g * \<bar>c44\<bar> + ?g * \<bar>c11 - c12\<bar> + ?g * \<bar>2 * c44\<bar>"
    using scaled_error [OF p1, of "c12 + c44"] scaled_error [OF p2, of c44]
      scaled_error [OF p3, of "c11 - c12"] scaled_error [OF p4, of "2 * c44"]
    by linarith
  also have "\<dots> = ?g * (\<bar>c12 + c44\<bar> + \<bar>c44\<bar> + \<bar>c11 - c12\<bar> + \<bar>2 * c44\<bar>)"
    by (simp only: distrib_left)
  also have "\<dots> \<le> ?g * (\<bar>c11\<bar> + 2 * \<bar>c12\<bar> + 4 * \<bar>c44\<bar>)"
  proof (rule mult_left_mono)
    show "\<bar>c12 + c44\<bar> + \<bar>c44\<bar> + \<bar>c11 - c12\<bar> + \<bar>2 * c44\<bar> \<le> \<bar>c11\<bar> + 2 * \<bar>c12\<bar> + 4 * \<bar>c44\<bar>"
      by linarith
    have "1 \<le> (1 + u) ^ 4" using u by (intro one_le_power) simp
    then show "0 \<le> ?g" by simp
  qed
  finally show ?thesis
    unfolding c_def b_def a_def m2_def a1_def h3_def h2_def .
qed

lemma round_even_error: "\<bar>of_int (round_even y) - y\<bar> \<le> 1 / 2"
proof -
  have "of_int \<lfloor>y\<rfloor> \<le> y" "y < of_int \<lfloor>y\<rfloor> + 1" by linarith+
  then show ?thesis
    by (auto simp: round_even_def Let_def)
qed

lemma binary64_rel: "\<bar>binary64 x - x\<bar> \<le> (1 / 2 ^ 53) * \<bar>x\<bar>"
proof (cases "x = 0")
  case True
  then show ?thesis by (simp add: binary64_def)
next
  case False
  define e where "e = \<lfloor>log 2 \<bar>x\<bar>\<rfloor>"
  define w :: real where "w = 2 powr (of_int e - 52)"
  have pos: "0 < \<bar>x\<bar>" using False by simp
  have w: "0 < w" by (simp add: w_def)
  have "of_int e \<le> log 2 \<bar>x\<bar>" unfolding e_def by (rule of_int_floor_le)
  then have below: "2 powr (of_int e) \<le> \<bar>x\<bar>"
    using pos by (simp add: powr_le_iff)
  have w52: "w = 2 powr (of_int e) / 2 ^ 52"
    by (simp add: w_def powr_diff)
  have val: "binary64 x = w * of_int (round_even (x / w))"
    using False by (simp add: binary64_def Let_def w_def e_def)
  have "binary64 x - x = w * (of_int (round_even (x / w)) - x / w)"
    using w by (simp add: val algebra_simps)
  then have "\<bar>binary64 x - x\<bar> = w * \<bar>of_int (round_even (x / w)) - x / w\<bar>"
    using w by (simp add: abs_mult)
  also have "\<dots> \<le> w * (1 / 2)"
    using w round_even_error [of "x / w"] by (intro mult_left_mono) auto
  also have "\<dots> = 2 powr (of_int e) / 2 ^ 53"
    by (simp add: w52)
  also have "\<dots> \<le> \<bar>x\<bar> / 2 ^ 53"
    using below by (simp add: divide_right_mono)
  finally show ?thesis by simp
qed

lemma binary64_eval:
  assumes lo: "2 ^ 52 \<le> \<bar>x\<bar> * 2 ^ n" and hi: "\<bar>x\<bar> * 2 ^ n < 2 ^ 53"
  shows "binary64 x = of_int (round_even (x * 2 ^ n)) / 2 ^ n"
proof -
  have nz: "x \<noteq> 0" using lo by auto
  then have pos: "0 < \<bar>x\<bar>" by simp
  have p: "2 powr (52 - real n) = 2 ^ 52 / 2 ^ n" "2 powr (53 - real n) = 2 ^ 53 / 2 ^ n"
    by (simp_all add: powr_diff powr_realpow)
  have "2 powr (52 - real n) \<le> \<bar>x\<bar>"
    unfolding p using lo by (simp add: field_simps)
  then have l1: "52 - real n \<le> log 2 \<bar>x\<bar>"
    using pos by (simp add: le_log_iff)
  have "\<bar>x\<bar> < 2 powr (53 - real n)"
    unfolding p using hi by (simp add: field_simps)
  then have l2: "log 2 \<bar>x\<bar> < 53 - real n"
    using pos by (simp add: log_less_iff)
  have fl: "\<lfloor>log 2 \<bar>x\<bar>\<rfloor> = 52 - int n"
    using l1 l2 by (intro floor_unique) simp_all
  have w: "(2 :: real) powr (of_int (52 - int n) - 52) = 1 / 2 ^ n"
    by (simp add: powr_minus powr_realpow inverse_eq_divide)
  show ?thesis
    using nz by (simp add: binary64_def Let_def fl w del: of_int_diff)
qed

lemma binary64_0: "binary64 0 = 0"
  by (simp add: binary64_def)

lemma binary64_1: "binary64 1 = 1"
  by (subst binary64_eval [where n = 52]) (simp_all add: round_even_def)

lemma binary64_tenth: "binary64 (1 / 10) = 7205759403792794 / 2 ^ 56"
  by (subst binary64_eval [where n = 56]) (simp_all add: round_even_def)

lemma binary64_literals:
  "binary64 (1 / 5) = 7205759403792794 / 2 ^ 55"
  "binary64 (3 / 10) = 5404319552844595 / 2 ^ 54"
  by (subst binary64_eval [where n = 55], simp_all add: round_even_def)
     (subst binary64_eval [where n = 54], simp_all add: round_even_def)

lemma binary64_representable:
  "binary64 (7205759403792794 / 2 ^ 55) = 7205759403792794 / 2 ^ 55"
  "binary64 (5404319552844595 / 2 ^ 54) = 5404319552844595 / 2 ^ 54"
  "binary64 (- (6305039478318694 / 2 ^ 53)) = - (6305039478318694 / 2 ^ 53)"
  by (subst binary64_eval [where n = 55], simp_all add: round_even_def)
     (subst binary64_eval [where n = 54], simp_all add: round_even_def,
      subst binary64_eval [where n = 53], simp_all add: round_even_def)

lemma binary64_al:
  "binary64 (7205759403792794 / 2 ^ 56 - 7205759403792794 / 2 ^ 55) = - (7205759403792794 / 2 ^ 56)"
  "binary64 (2 * (5404319552844595 / 2 ^ 54)) = 5404319552844595 / 2 ^ 53"
  "binary64 (- (7205759403792794 / 2 ^ 56) - 5404319552844595 / 2 ^ 53)
     = - (6305039478318694 / 2 ^ 53)"
  by (subst binary64_eval [where n = 56], simp_all add: round_even_def)
     (subst binary64_eval [where n = 53], simp_all add: round_even_def,
      subst binary64_eval [where n = 53], simp_all add: round_even_def)

lemma binary64_sums:
  "binary64 (7205759403792794 / 2 ^ 55 + 5404319552844595 / 2 ^ 54) = 1 / 2"
  "binary64 (1 / 2 + 5404319552844595 / 2 ^ 54) = 7205759403792794 / 2 ^ 53"
  "binary64 (7205759403792794 / 2 ^ 53 + - (6305039478318694 / 2 ^ 53)) = 7205759403792800 / 2 ^ 56"
  by (subst binary64_eval [where n = 53], simp_all add: round_even_def)
     (subst binary64_eval [where n = 53], simp_all add: round_even_def,
      subst binary64_eval [where n = 56], simp_all add: round_even_def)


lemma rounding_basics:
  fixes fl :: rounding
  assumes rel: "\<forall>x. \<bar>fl x - x\<bar> \<le> u * \<bar>x\<bar>" and u: "u \<le> 1"
  shows "fl 0 = 0" "0 \<le> fl tol"
proof -
  have "\<bar>fl 0 - 0\<bar> \<le> u * \<bar>0\<bar>" using rel by blast
  then show "fl 0 = 0" by simp
  have "\<bar>fl tol - tol\<bar> \<le> u * \<bar>tol\<bar>" using rel by blast
  moreover have "0 \<le> tol" by (simp add: tol_def)
  moreover from this u have "u * tol \<le> 1 * tol" by (intro mult_right_mono)
  ultimately show "0 \<le> fl tol" by simp
qed

lemma binary64_basics: "binary64 0 = 0" "0 \<le> binary64 tol"
proof -
  have "\<forall>x. \<bar>binary64 x - x\<bar> \<le> (1 / 2 ^ 53) * \<bar>x\<bar>"
    using binary64_rel by blast
  then show "binary64 0 = 0" "0 \<le> binary64 tol"
    by (rule rounding_basics, simp)+
qed

lemma example_double_init:
  "CubicElasticModuli_init_fl binary64 (binary64 (1 / 10)) (binary64 (1 / 5)) (binary64 (3 / 10))
     = Inr example_double_moduli"
  unfolding binary64_tenth binary64_literals
  by (subst CubicElasticModuli_init_fl_value)
     (simp_all only: binary64_basics binary64_1 binary64_representable binary64_al binary64_sums
        mult_1_right example_double_moduli_def replicate_Suc replicate_0 numeral_3_eq_3)

lemma example_double_fields:
  "la example_double_moduli = 7205759403792794 / 2 ^ 55"
  "mu example_double_moduli = 5404319552844595 / 2 ^ 54"
  "al example_double_moduli = - (6305039478318694 / 2 ^ 53)"
  by (simp_all add: example_double_moduli_def)

lemma example_double_rotated:
  "rotate_fl binary64 example_double_moduli eye =
     Inr (example_double_moduli,
          ([7205759403792800 / 2 ^ 56, 7205759403792800 / 2 ^ 56, 7205759403792800 / 2 ^ 56],
           [7205759403792794 / 2 ^ 55, 7205759403792794 / 2 ^ 55, 7205759403792794 / 2 ^ 55],
           [5404319552844595 / 2 ^ 54, 5404319552844595 / 2 ^ 54, 5404319552844595 / 2 ^ 54]))"
proof -
  have "rotate_fl binary64 example_double_moduli eye =
     Inr (store_rotated example_double_moduli
       [7205759403792800 / 2 ^ 56, 7205759403792800 / 2 ^ 56, 7205759403792800 / 2 ^ 56,
        7205759403792794 / 2 ^ 55, 7205759403792794 / 2 ^ 55, 7205759403792794 / 2 ^ 55,
        5404319552844595 / 2 ^ 54, 5404319552844595 / 2 ^ 54, 5404319552844595 / 2 ^ 54])"
    by (subst rotate_fl_eye)
       (simp_all only: binary64_basics binary64_1 binary64_representable binary64_sums
          mult_1_right example_double_fields)
  moreover have "store_rotated example_double_moduli
       [7205759403792800 / 2 ^ 56, 7205759403792800 / 2 ^ 56, 7205759403792800 / 2 ^ 56,
        7205759403792794 / 2 ^ 55, 7205759403792794 / 2 ^ 55, 7205759403792794 / 2 ^ 55,
        5404319552844595 / 2 ^ 54, 5404319552844595 / 2 ^ 54, 5404319552844595 / 2 ^ 54]
     = (example_double_moduli,
          ([7205759403792800 / 2 ^ 56, 7205759403792800 / 2 ^ 56, 7205759403792800 / 2 ^ 56],
           [7205759403792794 / 2 ^ 55, 7205759403792794 / 2 ^ 55, 7205759403792794 / 2 ^ 55],
           [5404319552844595 / 2 ^ 54, 5404319552844595 / 2 ^ 54, 5404319552844595 / 2 ^ 54]))"
    by (simp add: store_rotated_def example_double_moduli_def Let_def)
  ultimately show ?thesis
    by (simp only:)
qed

text \<open>
  C7, amended: let the arithmetic round with relative error at most \<open>u\<close> (\<open>u = 2\<^sup>-\<^sup>5\<^sup>3\<close> for
  double precision) and represent 1 exactly, and let C12 and C44 be numbers of that
  arithmetic. Then \<open>rotate\<close> with the 3 by 3 identity matrix returns three entries of
  \<open>C12_rot\<close> that are exactly C12 and three entries of \<open>C44_rot\<close> that are exactly C44.
  The three entries of \<open>C11_rot\<close> are one and the same number, the rounded sum
  \<open>((C12 + C44) + C44) + ((C11 - C12) - 2 C44)\<close>, which is C11 only up to rounding: it
  differs from C11 by at most \<open>((1 + u)\<^sup>4 - 1) (|C11| + 2 |C12| + 4 |C44|)\<close>. The object,
  which the constructor has already rotated by the identity, is left as it was.
\<close>

theorem rotate_identity_rounded:
  fixes fl :: rounding
  assumes rel: "\<forall>x. \<bar>fl x - x\<bar> \<le> u * \<bar>x\<bar>" and u: "u \<le> 1" and one: "fl 1 = 1"
    and doubles: "fl c12 = c12" "fl c44 = c44"
    and init: "CubicElasticModuli_init_fl fl c11 c12 c44 = Inr self"
  shows "\<exists>c. rotate_fl fl self eye = Inr (self, ([c, c, c], [c12, c12, c12], [c44, c44, c44])) \<and>
             c = fl (fl (fl (c12 + c44) + c44) + fl (fl (fl (c11 - c12) - fl (2 * c44)) * 1)) \<and>
             \<bar>c - c11\<bar> \<le> ((1 + u) ^ 4 - 1) * (\<bar>c11\<bar> + 2 * \<bar>c12\<bar> + 4 * \<bar>c44\<bar>)"
proof -
  let ?c = "fl (fl (fl (c12 + c44) + c44) + fl (fl (fl (c11 - c12) - fl (2 * c44)) * 1))"
  note basics = rounding_basics [OF rel u]
  have self: "self = \<lparr>C11 = c11, C12 = c12, C44 = c44, la = c12, mu = c44,
          al = fl (fl (c11 - c12) - fl (2 * c44)),
          C11_rot = replicate 3 ?c, C12_rot = [c12, c12, c12], C44_rot = [c44, c44, c44]\<rparr>"
    using init CubicElasticModuli_init_fl_value [OF basics(1) one basics(2) doubles, of c11]
    by simp
  have fields: "la self = c12" "mu self = c44" "al self = fl (fl (c11 - c12) - fl (2 * c44))"
    by (simp_all add: self)
  have "fl (la self) = la self" "fl (mu self) = mu self"
    using doubles by (simp_all only: fields)
  from rotate_fl_eye [OF basics(1) one basics(2) this]
  have "rotate_fl fl self eye =
          Inr (store_rotated self [?c, ?c, ?c, c12, c12, c12, c44, c44, c44])"
    by (simp only: fields)
  moreover have "store_rotated self [?c, ?c, ?c, c12, c12, c12, c44, c44, c44]
          = (self, ([?c, ?c, ?c], [c12, c12, c12], [c44, c44, c44]))"
    unfolding self by (simp add: store_rotated_def Let_def numeral_3_eq_3)
  ultimately have "rotate_fl fl self eye
          = Inr (self, ([?c, ?c, ?c], [c12, c12, c12], [c44, c44, c44]))"
    by (simp only:)
  with rounded_sum_error [OF rel, of c12 c44 c11] show ?thesis
    by blast
qed

theorem rotate_identity_rounded_witness:
  "CubicElasticModuli_init_fl binary64 (binary64 (1 / 10)) (binary64 (1 / 5)) (binary64 (3 / 10))
     = Inr example_double_moduli \<and>
   rotate_fl binary64 example_double_moduli eye =
     Inr (example_double_moduli,
          ([7205759403792800 / 2 ^ 56, 7205759403792800 / 2 ^ 56, 7205759403792800 / 2 ^ 56],
           [binary64 (1 / 5), binary64 (1 / 5), binary64 (1 / 5)],
           [binary64 (3 / 10), binary64 (3 / 10), binary64 (3 / 10)])) \<and>
   \<bar>7205759403792800 / 2 ^ 56 - binary64 (1 / 10)\<bar>
     \<le> ((1 + 1 / 2 ^ 53) ^ 4 - 1)
          * (\<bar>binary64 (1 / 10)\<bar> + 2 * \<bar>binary64 (1 / 5)\<bar> + 4 * \<bar>binary64 (3 / 10)\<bar>)"
proof -
  have rel: "\<forall>x. \<bar>binary64 x - x\<bar> \<le> (1 / 2 ^ 53) * \<bar>x\<bar>"
    using binary64_rel by blast
  have u: "(1 :: real) / 2 ^ 53 \<le> 1" by simp
  have doubles: "binary64 (binary64 (1 / 5)) = binary64 (1 / 5)"
      "binary64 (binary64 (3 / 10)) = binary64 (3 / 10)"
    by (simp_all only: binary64_literals binary64_representable)
  obtain c where c: "rotate_fl binary64 example_double_moduli eye
        = Inr (example_double_moduli,
               ([c, c, c], [binary64 (1 / 5), binary64 (1 / 5), binary64 (1 / 5)],
                [binary64 (3 / 10), binary64 (3 / 10), binary64 (3 / 10)]))"
      and bound: "\<bar>c - binary64 (1 / 10)\<bar>
        \<le> ((1 + 1 / 2 ^ 53) ^ 4 - 1)
             * (\<bar>binary64 (1 / 10)\<bar> + 2 * \<bar>binary64 (1 / 5)\<bar> + 4 * \<bar>binary64 (3 / 10)\<bar>)"
    using rotate_identity_rounded [OF rel u binary64_1 doubles example_double_init] by blast
  from c have "c = 7205759403792800 / 2 ^ 56"
    by (simp only: example_double_rotated sum.inject prod.inject list.inject)
  with c bound example_double_init show ?thesis
    by (simp only: simp_thms)
qed

text \<open>
  C7 as stated fails in double precision: for \<open>CubicElasticModuli(0.1, 0.2, 0.3)\<close> the
  entries of \<open>C11_rot\<close> that \<open>rotate\<close> returns for the identity matrix are
  \<open>7205759403792800 / 2\<^sup>5\<^sup>6\<close> (0.10000000000000009), six units in the last place above
  \<open>C11 = 7205759403792794 / 2\<^sup>5\<^sup>6\<close>, the double nearest to 0.1.
\<close>

theorem rotate_identity_counterexample:
  "CubicElasticModuli_init_fl binary64 (binary64 (1 / 10)) (binary64 (1 / 5)) (binary64 (3 / 10))
     = Inr example_double_moduli \<and>
   rotate_fl binary64 example_double_moduli eye =
     Inr (example_double_moduli,
          ([7205759403792800 / 2 ^ 56, 7205759403792800 / 2 ^ 56, 7205759403792800 / 2 ^ 56],
           [7205759403792794 / 2 ^ 55, 7205759403792794 / 2 ^ 55, 7205759403792794 / 2 ^ 55],
           [5404319552844595 / 2 ^ 54, 5404319552844595 / 2 ^ 54, 5404319552844595 / 2 ^ 54])) \<and>
   C11 example_double_moduli = 7205759403792794 / 2 ^ 56 \<and>
   binary64 (1 / 10) = 7205759403792794 / 2 ^ 56 \<and>
   (7205759403792800 / 2 ^ 56 :: real) \<noteq> 7205759403792794 / 2 ^ 56"
proof -
  have "C11 example_double_moduli = 7205759403792794 / 2 ^ 56"
    by (simp add: example_double_moduli_def)
  moreover have "(7205759403792800 / 2 ^ 56 :: real) \<noteq> 7205759403792794 / 2 ^ 56"
    by simp
  ultimately show ?thesis
    using example_double_init example_double_rotated binary64_tenth by (simp only: simp_thms)
qed

subsection \<open>The closed form and the explicit rotation\<close>









section \<open>Properties of the crack solution and of the crack model\<close>

lemma np_binary_same_length:
  "length xs = length ys \<Longrightarrow> np_binary f xs ys = Inr (map2 f xs ys)"
  by (simp add: np_binary_def)

lemma scale_lists:
  "length x = length ref_x \<Longrightarrow>
     map2 (+) ref_x (map (\<lambda>u. c * u) (map2 (-) x ref_x)) = map2 (\<lambda>r u. r + c * (u - r)) ref_x x"
  by (induction x ref_x rule: list_induct2) simp_all

lemma scale_component_value:
  assumes len: "length x = length ref_x" and k: "old_k \<noteq> 0"
  shows "scale_component x ref_x old_k new_k
           = Inr (map2 (\<lambda>r u. r + new_k / old_k * (u - r)) ref_x x)"
proof -
  have len2: "length ref_x = length (map (\<lambda>u. new_k / old_k * u) (map2 (-) x ref_x))"
    using len by simp
  have "scale_component x ref_x old_k new_k
          = np_binary (+) ref_x (map (\<lambda>u. new_k / old_k * u) (map2 (-) x ref_x))"
    using k by (simp only: scale_component_def np_binary_same_length [OF len] if_False sum.case)
  also have "\<dots> = Inr (map2 (+) ref_x (map (\<lambda>u. new_k / old_k * u) (map2 (-) x ref_x)))"
    by (rule np_binary_same_length [OF len2])
  finally show ?thesis
    by (simp only: scale_lists [OF len])
qed

lemma scale_back:
  fixes c r u :: real
  shows "c \<noteq> 0 \<Longrightarrow> r + 1 / c * (r + c * (u - r) - r) = u"
  by simp

lemma scale_lists_inverse:
  fixes c :: real
  assumes "length x = length ref_x" and c: "c \<noteq> 0"
  shows "map2 (\<lambda>r u. r + 1 / c * (u - r)) ref_x (map2 (\<lambda>r u. r + c * (u - r)) ref_x x) = x"
  using assms(1)
  by (induction x ref_x rule: list_induct2)
    (simp_all only: scale_back [OF c] zip_Cons_Cons list.map prod.case zip_Nil)

lemma scale_component_roundtrip:
  assumes len: "length x = length ref_x" and k: "old_k \<noteq> 0" "new_k \<noteq> 0"
  shows "\<exists>x'. scale_component x ref_x old_k new_k = Inr x' \<and>
              scale_component x' ref_x new_k old_k = Inr x"
proof -
  let ?x' = "map2 (\<lambda>r u. r + new_k / old_k * (u - r)) ref_x x"
  have len': "length ?x' = length ref_x" using len by simp
  have inv: "old_k / new_k = 1 / (new_k / old_k)" by simp
  have "new_k / old_k \<noteq> 0" using k by simp
  then have ret: "map2 (\<lambda>r u. r + old_k / new_k * (u - r)) ref_x ?x' = x"
    unfolding inv by (rule scale_lists_inverse [OF len])
  have there: "scale_component x ref_x old_k new_k = Inr ?x'"
    by (rule scale_component_value [OF len k(1)])
  have "scale_component ?x' ref_x new_k old_k
          = Inr (map2 (\<lambda>r u. r + old_k / new_k * (u - r)) ref_x ?x')"
    by (rule scale_component_value [OF len' k(2)])
  then have "scale_component ?x' ref_x new_k old_k = Inr x"
    by (simp only: ret)
  with there show ?thesis by (intro exI conjI)
qed

text \<open>
  C8: for position arrays \<open>x\<close>, \<open>y\<close> and reference arrays \<open>ref_x\<close>, \<open>ref_y\<close> of the same
  shapes and non-zero stress intensity factors \<open>old_k\<close> and \<open>new_k\<close>,
  \<open>scale_displacements\<close> with \<open>(old_k, new_k)\<close> returns positions from which
  \<open>scale_displacements\<close> with \<open>(new_k, old_k)\<close> returns the original \<open>(x, y)\<close>.
\<close>

theorem scale_displacements_roundtrip:
  assumes "length x = length ref_x" "length y = length ref_y" "old_k \<noteq> 0" "new_k \<noteq> 0"
  shows "\<exists>x' y'. scale_displacements x y ref_x ref_y old_k new_k = Inr (x', y') \<and>
                 scale_displacements x' y' ref_x ref_y new_k old_k = Inr (x, y)"
proof -
  obtain x' where x': "scale_component x ref_x old_k new_k = Inr x'"
      "scale_component x' ref_x new_k old_k = Inr x"
    using scale_component_roundtrip [OF assms(1,3,4)] by blast
  obtain y' where y': "scale_component y ref_y old_k new_k = Inr y'"
      "scale_component y' ref_y new_k old_k = Inr y"
    using scale_component_roundtrip [OF assms(2,3,4)] by blast
  show ?thesis
    using x' y' by (simp add: scale_displacements_def)
qed

theorem scale_displacements_roundtrip_witness:
  "length [1, 3 :: real] = length [0, 1 :: real] \<and> length [2 :: real] = length [1 :: real] \<and>
   (2 :: real) \<noteq> 0 \<and> (3 :: real) \<noteq> 0 \<and>
   scale_displacements [1, 3] [2] [0, 1] [1] 2 3 = Inr ([3 / 2, 4], [5 / 2]) \<and>
   scale_displacements [3 / 2, 4] [5 / 2] [0, 1] [1] 3 2 = Inr ([1, 3], [2])"
proof -
  have v: "scale_displacements [1, 3] [2] [0, 1] [1] 2 3 = Inr ([3 / 2, 4], [5 / 2])"
    by (simp add: scale_displacements_def scale_component_def np_binary_def)
  obtain x' y' where r: "scale_displacements [1, 3] [2] [0, 1] [1] 2 3 = Inr (x', y')"
      "scale_displacements x' y' [0, 1] [1] 3 2 = Inr ([1, 3], [2])"
    using scale_displacements_roundtrip [of "[1, 3]" "[0, 1]" "[2]" "[1]" 2 3] by auto
  from r(1) v have "x' = [3 / 2, 4]" "y' = [5 / 2]" by simp_all
  with r(2) v show ?thesis by simp
qed

lemma init_crack_four:
  assumes "roots (quartic A11 A22 A12 A16 A26 A66) = [r1, r2, r3, r4]"
  shows "init_crack roots A11 A22 A12 A16 A26 A66 =
     (if r1 \<noteq> cnj r2 \<or> r3 \<noteq> cnj r4 then Inl (RuntimeError ''Roots not in pairs.'')
      else Inr \<lparr>a11 = A11, a22 = A22, a12 = A12, a16 = A16, a26 = A26, a66 = A66,
                mu1 = r1, mu2 = r3,
                p1 = of_real A11 * r1\<^sup>2 + of_real A12 - of_real A16 * r1,
                p2 = of_real A11 * r3\<^sup>2 + of_real A12 - of_real A16 * r3,
                q1 = of_real A12 * r1 + of_real A22 / r1 - of_real A26,
                q2 = of_real A12 * r3 + of_real A22 / r3 - of_real A26,
                h1 = 1 / (r1 - r3),
                h2 = r1 * (of_real A11 * r3\<^sup>2 + of_real A12 - of_real A16 * r3),
                h3 = r3 * (of_real A11 * r1\<^sup>2 + of_real A12 - of_real A16 * r1),
                h4 = r1 * (of_real A12 * r3 + of_real A22 / r3 - of_real A26),
                h5 = r3 * (of_real A12 * r1 + of_real A22 / r1 - of_real A26)\<rparr>)"
  using assms by (simp add: init_crack_def Let_def)

lemma init_crack_fields:
  assumes "init_crack roots A11 A22 A12 A16 A26 A66 = Inr c"
  shows "a22 c = A22"
  using assms
  by (auto simp: init_crack_def Let_def split: list.splits if_splits)

lemma init_crack_cases:
  "init_crack roots A11 A22 A12 A16 A26 A66 =
     (case roots [A11, - 2 * A16, 2 * A12 + A66, - 2 * A26, A22] of
        [r1, r2, r3, r4] \<Rightarrow>
          if r1 = cnj r2 \<and> r3 = cnj r4
          then Inr \<lparr>a11 = A11, a22 = A22, a12 = A12, a16 = A16, a26 = A26, a66 = A66,
                mu1 = r1, mu2 = r3,
                p1 = of_real A11 * r1\<^sup>2 + of_real A12 - of_real A16 * r1,
                p2 = of_real A11 * r3\<^sup>2 + of_real A12 - of_real A16 * r3,
                q1 = of_real A12 * r1 + of_real A22 / r1 - of_real A26,
                q2 = of_real A12 * r3 + of_real A22 / r3 - of_real A26,
                h1 = 1 / (r1 - r3),
                h2 = r1 * (of_real A11 * r3\<^sup>2 + of_real A12 - of_real A16 * r3),
                h3 = r3 * (of_real A11 * r1\<^sup>2 + of_real A12 - of_real A16 * r1),
                h4 = r1 * (of_real A12 * r3 + of_real A22 / r3 - of_real A26),
                h5 = r3 * (of_real A12 * r1 + of_real A22 / r1 - of_real A26)\<rparr>
          else Inl (RuntimeError ''Roots not in pairs.'')
      | _ \<Rightarrow> Inl ValueError)"
  by (simp add: init_crack_def quartic_def Let_def split: list.splits)

lemma four_entries:
  "length xs = 4 \<longleftrightarrow> (\<exists>r1 r2 r3 r4. xs = [r1, r2, r3, r4])"
  by (auto simp: length_Suc_conv numeral_eq_Suc)

text \<open>
  C4, amended: \<open>set_plane_stress\<close> hands the coefficient list
  \<open>[a11, -2 a16, 2 a12 + a66, -2 a26, a22]\<close> to the root finder, and \<open>set_plane_strain\<close>
  (for \<open>b33\<close> not zero) does so with the reduced coefficients. The configuration succeeds
  exactly when the root finder returns four roots that form two complex-conjugate pairs in
  the order returned, \<open>[\<mu>1, conj \<mu>1, \<mu>2, conj \<mu>2]\<close>; the first root of each pair is then
  stored as \<open>mu1\<close> and \<open>mu2\<close>. It raises RuntimeError('Roots not in pairs.') exactly when
  four roots are returned that are not paired so, and ValueError (from the tuple
  assignment) exactly when the root finder returns another number of roots.
\<close>

theorem init_crack_pairs:
  "((\<exists>c. set_plane_stress roots A11 A22 A12 A16 A26 A66 = Inr c)
      \<longleftrightarrow> (\<exists>m1 m2. roots [A11, - 2 * A16, 2 * A12 + A66, - 2 * A26, A22]
                       = [m1, cnj m1, m2, cnj m2])) \<and>
   (\<forall>c. set_plane_stress roots A11 A22 A12 A16 A26 A66 = Inr c \<longrightarrow>
      roots [A11, - 2 * A16, 2 * A12 + A66, - 2 * A26, A22]
        = [mu1 c, cnj (mu1 c), mu2 c, cnj (mu2 c)]) \<and>
   (set_plane_stress roots A11 A22 A12 A16 A26 A66 = Inl (RuntimeError ''Roots not in pairs.'')
      \<longleftrightarrow> (\<exists>r1 r2 r3 r4. roots [A11, - 2 * A16, 2 * A12 + A66, - 2 * A26, A22] = [r1, r2, r3, r4]
                          \<and> \<not> (r1 = cnj r2 \<and> r3 = cnj r4))) \<and>
   (set_plane_stress roots A11 A22 A12 A16 A26 A66 = Inl ValueError
      \<longleftrightarrow> length (roots [A11, - 2 * A16, 2 * A12 + A66, - 2 * A26, A22]) \<noteq> 4) \<and>
   (b33 \<noteq> 0 \<longrightarrow>
      set_plane_strain roots b11 b22 b33 b12 b13 b23 b16 b26 b36 b66 =
        set_plane_stress roots (b11 - (b13 * b13) / b33) (b22 - (b23 * b23) / b33)
          (b12 - (b13 * b23) / b33) (b16 - (b13 * b36) / b33) (b26 - (b23 * b36) / b33) b66)"
proof -
  let ?L = "roots [A11, - 2 * A16, 2 * A12 + A66, - 2 * A26, A22]"
  let ?S = "set_plane_stress roots A11 A22 A12 A16 A26 A66"
  have S: "?S = init_crack roots A11 A22 A12 A16 A26 A66"
    by (simp add: set_plane_stress_def)
  show ?thesis
  proof (cases "length ?L = 4")
    case False
    then have "?S = Inl ValueError"
      unfolding S init_crack_cases by (auto split: list.splits)
    with False show ?thesis
      by (auto simp: set_plane_strain_def set_plane_stress_def)
  next
    case True
    then obtain r1 r2 r3 r4 where L: "?L = [r1, r2, r3, r4]"
      unfolding four_entries by blast
    show ?thesis
    proof (cases "r1 = cnj r2 \<and> r3 = cnj r4")
      case True
      then have r: "r2 = cnj r1" "r4 = cnj r3" by simp_all
      have "\<exists>c. ?S = Inr c \<and> mu1 c = r1 \<and> mu2 c = r3"
        unfolding S init_crack_cases L using True by simp
      then show ?thesis
        using L r by (auto simp: set_plane_strain_def set_plane_stress_def)
    next
      case False
      then have "?S = Inl (RuntimeError ''Roots not in pairs.'')"
        unfolding S init_crack_cases L by simp
      then show ?thesis
        using L False by (auto simp: set_plane_strain_def set_plane_stress_def)
    qed
  qed
qed

lemma example_roots_quartic:
  "example_roots (quartic 1 4 0 0 0 5) = [2 * \<i>, - (2 * \<i>), \<i>, - \<i>]"
  by (simp add: example_roots_def quartic_def)

lemma example_crack_configured:
  "init_crack example_roots 1 4 0 0 0 5 = Inr example_crack"
  using init_crack_four [of example_roots 1 4 0 0 0 5 "2 * \<i>" "- (2 * \<i>)" \<i> "- \<i>",
      OF example_roots_quartic]
  by (simp add: example_crack_def power2_eq_square complex_eq_iff)

theorem init_crack_pairs_witness:
  "set_plane_stress example_roots 1 4 0 0 0 5 = Inr example_crack \<and>
   example_roots [1, - 2 * 0, 2 * 0 + 5, - 2 * 0, 4] = [2 * \<i>, cnj (2 * \<i>), \<i>, cnj \<i>] \<and>
   mu1 example_crack = 2 * \<i> \<and> mu2 example_crack = \<i>"
proof -
  have c: "set_plane_stress example_roots 1 4 0 0 0 5 = Inr example_crack"
    by (simp add: set_plane_stress_def example_crack_configured)
  have "example_roots [1, - 2 * 0, 2 * 0 + 5, - 2 * 0, 4]
          = [mu1 example_crack, cnj (mu1 example_crack), mu2 example_crack, cnj (mu2 example_crack)]"
    using init_crack_pairs [of example_roots 1 4 0 0 0 5] c by blast
  then show ?thesis
    using c by (simp add: example_crack_def)
qed

text \<open>
  C4 as stated fails for \<open>a11 = 0\<close>: with the coefficients (0, 1, 0, 0, 0, 1) the root
  finder is left with \<open>\<mu>\<^sup>2 + 1\<close> and returns the two roots \<open>i, -i\<close>, which are a conjugate
  pair; the configuration does not succeed and the error is not the fatal
  'Roots not in pairs.' but the ValueError of the tuple assignment.
\<close>

theorem init_crack_pairs_counterexample:
  "example_roots [0, - 2 * 0, 2 * 0 + 1, - 2 * 0, 1] = [\<i>, cnj \<i>] \<and>
   set_plane_stress example_roots 0 1 0 0 0 1 = Inl ValueError \<and>
   set_plane_stress example_roots 0 1 0 0 0 1 \<noteq> Inl (RuntimeError ''Roots not in pairs.'')"
  by (simp add: set_plane_stress_def init_crack_cases example_roots_def)

text \<open>
  C5: for a configured crack solution and a surface energy \<open>\<gamma>\<close>, \<open>k1g\<close> returns the square
  root of \<open>-4 \<gamma> / (a22 Im((\<mu>1 + \<mu>2) / (\<mu>1 \<mu>2)))\<close> when that number is not negative, and
  raises (ValueError of \<open>math.sqrt\<close>) when it is negative. The divisor is assumed not
  to be zero.
\<close>

theorem k1g_value:
  assumes conf: "init_crack roots A11 A22 A12 A16 A26 A66 = Inr c"
    and nz: "A22 * Im ((mu1 c + mu2 c) / (mu1 c * mu2 c)) \<noteq> 0"
  shows "(0 \<le> - 4 * surface_energy / (A22 * Im ((mu1 c + mu2 c) / (mu1 c * mu2 c))) \<longrightarrow>
            k1g c surface_energy
              = Inr (sqrt (- 4 * surface_energy / (A22 * Im ((mu1 c + mu2 c) / (mu1 c * mu2 c)))))) \<and>
         (- 4 * surface_energy / (A22 * Im ((mu1 c + mu2 c) / (mu1 c * mu2 c))) < 0 \<longrightarrow>
            k1g c surface_energy = Inl ValueError)"
  by (simp add: k1g_def math_sqrt_def k1g_radicand_def k1g_denominator_def
      init_crack_fields [OF conf])

lemma example_crack_imaginary:
  "Im ((mu1 example_crack + mu2 example_crack) / (mu1 example_crack * mu2 example_crack)) = - 3 / 2"
  by (simp add: example_crack_def complex_eq_iff)

theorem k1g_value_witness:
  "init_crack example_roots 1 4 0 0 0 5 = Inr example_crack \<and>
   k1g example_crack 6 = Inr 2 \<and> k1g example_crack (- 6) = Inl ValueError"
proof -
  have nz: "4 * Im ((mu1 example_crack + mu2 example_crack)
                      / (mu1 example_crack * mu2 example_crack)) \<noteq> 0"
    by (simp add: example_crack_imaginary)
  show ?thesis
    using k1g_value [OF example_crack_configured nz, of 6]
      k1g_value [OF example_crack_configured nz, of "- 6"] example_crack_configured
    by (simp add: example_crack_imaginary)
qed

lemma CubicCrystalCrack_init_error:
  "CubicCrystalCrack_init roots c11 c12 c44 crack_surface crack_front stress_state =
     Inl (if not_a_rotation (orientation crack_surface crack_front)
          then RuntimeError ''Matrix *A* does not describe a rotation.''
          else NotImplementedError)"
  by (simp add: CubicCrystalCrack_init_def CubicElasticModuli_init_ok rotate_def compliance_def)

lemma dot_transpose_rows:
  assumes "i < 3" "j < 3"
  shows "dot_transpose (rows r0 r1 r2) i j = dot ([r0, r1, r2] ! i) ([r0, r1, r2] ! j)"
proof -
  have "dot_transpose (rows r0 r1 r2) i j = dot ([r0, r1, r2] ! i) ([r0, r1, r2] ! j)"
    for i j
    by (cases "[r0, r1, r2] ! i"; cases "[r0, r1, r2] ! j")
       (simp add: dot_transpose_def rows_def range3_def)
  then show ?thesis .
qed

lemma dot_divide_by: "dot (divide_by a p) (divide_by b q) = dot a b / (p * q)"
  by (cases a; cases b) (simp add: add_divide_distrib)

lemma dot_negate: "dot (negate a) b = - dot a b" "dot a (negate b) = - dot a b"
  "dot (negate a) (negate b) = dot a b"
  by (cases a; cases b; simp)+

lemma dot_cross: "dot (cross a b) a = 0" "dot (cross a b) b = 0"
   "dot a (cross a b) = 0" "dot b (cross a b) = 0"
  by (cases a; cases b; simp add: algebra_simps)+

lemma lagrange: "dot (cross a b) (cross a b) = dot a a * dot b b - (dot a b)\<^sup>2"
  by (cases a; cases b) (simp add: power2_eq_square algebra_simps)

lemma dot_commute: "dot a b = dot b a"
  by (cases a; cases b) simp

lemma dot_self_nonneg: "0 \<le> dot a a"
  by (cases a) simp

lemma dot_self_zero: "dot a a = 0 \<longleftrightarrow> a = (0, 0, 0)"
  by (cases a) (auto simp: sum_power2_eq_zero_iff power2_eq_square [symmetric] add_nonneg_eq_0_iff)

lemma unit_self:
  assumes "a \<noteq> (0, 0, 0)"
  shows "dot a a / (sqrt (dot a a) * sqrt (dot a a)) = 1"
proof -
  have "0 < dot a a" using assms dot_self_nonneg [of a] dot_self_zero [of a] by linarith
  then show ?thesis by simp
qed


lemma orthonormal_rows:
  assumes "dot r0 r0 = 1" "dot r1 r1 = 1" "dot r2 r2 = 1"
    and "dot r0 r1 = 0" "dot r0 r2 = 0" "dot r1 r2 = 0"
  shows "\<not> not_a_rotation (rows r0 r1 r2)"
proof -
  have sym: "dot r1 r0 = 0" "dot r2 r0 = 0" "dot r2 r1 = 0"
    using assms by (simp_all add: dot_commute)
  have "\<forall>i<3. \<forall>j<3. \<bar>dot_transpose (rows r0 r1 r2) i j - eye i j\<bar> \<le> tol"
    unfolding below_3 by (simp add: dot_transpose_rows assms sym eye_def tol_def)
  then show ?thesis
    unfolding not_a_rotation_iff by (meson not_less)
qed

lemma orientation_orthonormal:
  assumes indep: "cross crack_surface crack_front \<noteq> (0, 0, 0)"
    and orth: "dot crack_surface crack_front = 0"
  shows "\<not> not_a_rotation (orientation crack_surface crack_front)"
proof -
  let ?c = "cross crack_surface crack_front"
  let ?t = "divide_by ?c (sqrt (dot ?c ?c))"
  let ?s = "divide_by crack_surface (sqrt (dot crack_surface crack_surface))"
  let ?f = "divide_by crack_front (sqrt (dot crack_front crack_front))"
  have "0 < dot ?c ?c"
    using indep dot_self_nonneg [of ?c] dot_self_zero [of ?c] by linarith
  then have prod: "0 < dot crack_surface crack_surface * dot crack_front crack_front"
    by (simp add: lagrange orth)
  have s0: "crack_surface \<noteq> (0, 0, 0)" and f0: "crack_front \<noteq> (0, 0, 0)"
    using prod by auto
  have units: "dot ?t ?t = 1" "dot ?s ?s = 1" "dot ?f ?f = 1"
    by (simp_all only: dot_divide_by unit_self [OF indep] unit_self [OF s0] unit_self [OF f0])
  have zeros: "dot ?t ?s = 0" "dot ?t ?f = 0" "dot ?s ?f = 0"
    by (simp_all add: dot_divide_by dot_cross orth)
  have plain: "\<not> not_a_rotation (rows ?t ?s ?f)"
    using units zeros by (rule orthonormal_rows)
  have flipped: "\<not> not_a_rotation (rows (negate ?t) ?s ?f)"
    by (rule orthonormal_rows) (simp_all add: dot_negate units zeros)
  show ?thesis
    using plain flipped by (simp add: orientation_def Let_def)
qed

text \<open>
  C1, amended: for all elastic constants, every \<open>stress_state\<close> and all crack-surface and
  crack-front vectors whose cross product is not zero, the constructor of
  \<open>CubicCrystalCrack\<close> never returns an object: it raises RuntimeError('Matrix *A* does
  not describe a rotation.') when the normalised axes fail the orthonormality check of
  \<open>rotate\<close>, and NotImplementedError (from \<open>compliance\<close>) otherwise; the latter is the case
  whenever the crack surface and the crack front are orthogonal.
\<close>

theorem CubicCrystalCrack_init_never_succeeds:
  assumes "cross crack_surface crack_front \<noteq> (0, 0, 0)"
  shows "CubicCrystalCrack_init roots c11 c12 c44 crack_surface crack_front stress_state =
           Inl (if not_a_rotation (orientation crack_surface crack_front)
                then RuntimeError ''Matrix *A* does not describe a rotation.''
                else NotImplementedError) \<and>
         (dot crack_surface crack_front = 0 \<longrightarrow>
            CubicCrystalCrack_init roots c11 c12 c44 crack_surface crack_front stress_state =
              Inl NotImplementedError)"
  using orientation_orthonormal [OF assms]
  by (simp add: CubicCrystalCrack_init_error)

theorem CubicCrystalCrack_init_never_succeeds_witness:
  "cross (1, 1, 0) (0, 0, 1) \<noteq> (0, 0, 0) \<and> dot (1, 1, 0) (0, 0, 1) = 0 \<and>
   CubicCrystalCrack_init example_roots 166 65 77 (1, 1, 0) (0, 0, 1) PLANE_STRAIN =
     Inl NotImplementedError"
proof -
  have h: "cross (1, 1, 0) (0, 0, 1) \<noteq> (0, 0, 0)" by simp
  have "dot (1, 1, 0) (0, 0, 1) = 0 \<longrightarrow>
          CubicCrystalCrack_init example_roots 166 65 77 (1, 1, 0) (0, 0, 1) PLANE_STRAIN =
            Inl NotImplementedError"
    using CubicCrystalCrack_init_never_succeeds [OF h, of example_roots 166 65 77 PLANE_STRAIN]
    by (rule conjunct2)
  then show ?thesis
    using h by simp
qed

lemma sqrt_values: "sqrt 16 = 4" "sqrt 25 = 5"
  using real_sqrt_abs [of 4] real_sqrt_abs [of 5] by simp_all

lemma skew_orientation_rejected: "not_a_rotation (orientation (1, 0, 0) (3, 4, 0))"
proof -
  have "orientation (1, 0, 0) (3, 4, 0) = rows (0, 0, 1) (1, 0, 0) (3 / 5, 4 / 5, 0)"
    by (simp add: orientation_def Let_def sqrt_values det_def rows_def)
  moreover have "\<bar>dot_transpose (rows (0, 0, 1) (1, 0, 0) (3 / 5, 4 / 5, 0)) 1 2 - eye 1 2\<bar> > tol"
    by (simp add: dot_transpose_rows eye_def tol_def)
  ultimately have "(1::nat) < 3 \<and> (2::nat) < 3 \<and>
      tol < \<bar>dot_transpose (orientation (1, 0, 0) (3, 4, 0)) 1 2 - eye 1 2\<bar>"
    by simp
  then show ?thesis
    unfolding not_a_rotation_iff by blast
qed

text \<open>
  C1 as stated fails: for the crack surface (1, 0, 0) and the crack front (3, 4, 0),
  which are not orthogonal, the constructor raises the RuntimeError of \<open>rotate\<close>, not
  NotImplementedError.
\<close>

theorem CubicCrystalCrack_init_counterexample:
  "CubicCrystalCrack_init example_roots 166 65 77 (1, 0, 0) (3, 4, 0) PLANE_STRAIN
     = Inl (RuntimeError ''Matrix *A* does not describe a rotation.'') \<and>
   CubicCrystalCrack_init example_roots 166 65 77 (1, 0, 0) (3, 4, 0) PLANE_STRAIN
     \<noteq> Inl NotImplementedError"
  by (simp add: CubicCrystalCrack_init_error skew_orientation_rejected)

section \<open>Properties of the strain bookkeeping and of the stress-field fit\<close>

lemma info_set_fields:
  "info (info_set key v atoms) = (info atoms)(key \<mapsto> v)"
  "positions (info_set key v atoms) = positions atoms"
  "cell (info_set key v atoms) = cell atoms"
  "info3 (info_set key v atoms) = info3 atoms"
  by (simp_all add: info_set_def)

lemma strip_atoms_fields:
  "positions strip_atoms = [(0, 0, 0), (0, 3, 0)]"
  "info strip_atoms = [''OrigHeight'' \<mapsto> 2, ''YoungsModulus'' \<mapsto> 3, ''PoissonRatio_yx'' \<mapsto> 1 / 2]"
  by (simp_all add: strip_atoms_def)

lemma strip_strain: "get_strain strip_atoms = (info_set ''strain'' (1 / 2) strip_atoms, Inr (1 / 2))"
  by (simp add: get_strain_def info_get_def strip_atoms_fields np_max_def np_min_def Let_def)

lemma strip_G:
  "get_energy_release_rate strip_atoms
     = (info_set ''G'' 1 (info_set ''strain'' (1 / 2) strip_atoms), Inr 1)"
  by (simp add: get_energy_release_rate_def strip_strain info_get_def info_set_fields
      strain_to_G_def strip_atoms_fields)

text \<open>
  C9 at a concrete strip (height 3, original height 2, E = 3, \<open>\<nu>\<close> = 0.5): \<open>get_strain\<close>
  returns 3/2 - 1 = 0.5 and \<open>get_energy_release_rate\<close> returns
  \<open>G = 0.5 E / (1 - \<nu>\<^sup>2) strain\<^sup>2 OrigHeight = 1\<close>, as the claim says; but
  \<open>get_stress_intensity_factor\<close>, of which the claim says that it returns
  \<open>\<surd>(G E / (1 - \<nu>\<^sup>2)) = 2\<close>, raises NameError, because the module as written does not
  bind the name \<open>sqrt\<close> that its line \<open>K = sqrt(G*Ep)\<close> reads. The strain and G have been
  stored in \<open>atoms.info\<close> by then.
\<close>

theorem get_stress_intensity_factor_unbound_sqrt:
  "snd (get_strain strip_atoms) = Inr (1 / 2) \<and>
   snd (get_energy_release_rate strip_atoms) = Inr 1 \<and>
   get_stress_intensity_factor crack_py strip_atoms
     = (info_set ''G'' 1 (info_set ''strain'' (1 / 2) strip_atoms), Inl (NameError ''sqrt''))"
  by (simp add: get_stress_intensity_factor_def strip_G strip_strain info_get_def info_set_fields
      strip_atoms_fields crack_py_def power2_eq_square)

lemma get_stress_intensity_factor_bound_sqrt:
  "get_stress_intensity_factor bound_sqrt strip_atoms
     = (info_set ''K'' 2 (info_set ''G'' 1 (info_set ''strain'' (1 / 2) strip_atoms)), Inr 2)"
  by (simp add: get_stress_intensity_factor_def strip_G strip_strain info_get_def info_set_fields
      strip_atoms_fields crack_py_def bound_sqrt_def power2_eq_square math_sqrt_def)

lemma strain_chain:
  assumes keys: "info atoms ''OrigHeight'' = Some h" "info atoms ''YoungsModulus'' = Some youngs"
      "info atoms ''PoissonRatio_yx'' = Some nu"
    and pos: "positions atoms \<noteq> []" and nu: "1 - nu\<^sup>2 \<noteq> 0" and height: "h \<noteq> 0"
  shows "snd (get_strain atoms)
           = Inr ((np_max (map y_of (positions atoms)) - np_min (map y_of (positions atoms))) / h - 1)"
    and "snd (get_energy_release_rate atoms)
           = Inr (0.5 * youngs / (1 - nu * nu)
                  * ((np_max (map y_of (positions atoms)) - np_min (map y_of (positions atoms))) / h - 1)
                  * ((np_max (map y_of (positions atoms)) - np_min (map y_of (positions atoms))) / h - 1)
                  * h)"
    and "snd (get_stress_intensity_factor crack_py atoms) = Inl (NameError ''sqrt'')"
    and "name_sqrt g = Some math_sqrt \<Longrightarrow>
         snd (get_stress_intensity_factor g atoms)
           = math_sqrt (0.5 * youngs / (1 - nu * nu)
                  * ((np_max (map y_of (positions atoms)) - np_min (map y_of (positions atoms))) / h - 1)
                  * ((np_max (map y_of (positions atoms)) - np_min (map y_of (positions atoms))) / h - 1)
                  * h * (youngs / (1 - nu\<^sup>2)))"
proof -
  let ?s = "(np_max (map y_of (positions atoms)) - np_min (map y_of (positions atoms))) / h - 1"
  let ?G = "0.5 * youngs / (1 - nu * nu) * ?s * ?s * h"
  have nu': "1 - nu * nu \<noteq> 0" using nu by (simp add: power2_eq_square)
  have s: "get_strain atoms = (info_set ''strain'' ?s atoms, Inr ?s)"
    using keys pos by (simp add: get_strain_def info_get_def Let_def)
  have G: "get_energy_release_rate atoms = (info_set ''G'' ?G (info_set ''strain'' ?s atoms), Inr ?G)"
    using keys nu' by (simp add: get_energy_release_rate_def s info_get_def info_set_fields strain_to_G_def)
  show "snd (get_strain atoms) = Inr ?s" by (simp add: s)
  show "snd (get_energy_release_rate atoms) = Inr ?G" by (simp add: G)
  show "snd (get_stress_intensity_factor crack_py atoms) = Inl (NameError ''sqrt'')"
    using keys nu by (simp add: get_stress_intensity_factor_def G info_get_def info_set_fields crack_py_def)
  show "snd (get_stress_intensity_factor g atoms) = math_sqrt (?G * (youngs / (1 - nu\<^sup>2)))"
    if "name_sqrt g = Some math_sqrt"
    using keys nu that
    by (simp add: get_stress_intensity_factor_def G info_get_def info_set_fields split: sum.splits)
qed


lemma fit_free: "free_params fit_params [] = [''K'', ''sxx0'', ''sxy0'', ''syy0'', ''x0'', ''y0'']"
  by (simp add: free_params_def fit_params_def dict_keys_def)

lemma fit_lookup:
  "dict_get fit_params ''K'' = Inr 1" "dict_get fit_params ''sxx0'' = Inr 0"
  "dict_get fit_params ''sxy0'' = Inr 0" "dict_get fit_params ''syy0'' = Inr 0"
  "dict_get fit_params ''x0'' = Inr 0" "dict_get fit_params ''y0'' = Inr 0"
  by (simp_all add: fit_params_def dict_get_def)

lemma sqrt_squares: "sqrt 25 = 5" "sqrt 100 = 10" "sqrt 2500 = 50"
  using real_sqrt_abs [of 5] real_sqrt_abs [of 10] real_sqrt_abs [of 50] by simp_all

lemma fit_radii: "radii fit_atoms 0 0 = [5, 10, 50]"
  by (simp add: radii_def fit_atoms_def sqrt_squares)

text \<open>
  C3 at a concrete call: with \<open>r_range = (5, 50)\<close> and atoms at the distances 5, 10
  and 50 from the tip estimate, the mask selects the second atom only, and the
  residual has the nine components of that atom only. The atom at exactly
  \<open>r = r_min\<close>, which the claim (and the docstring's \<open>r_range[0] <= r < r_range[1]\<close>)
  includes, does not contribute.
\<close>

theorem fit_mask_excludes_rmin:
  "radii fit_atoms 0 0 = [5, 10, 50] \<and>
   fit_mask (Some (5, 50)) (radii fit_atoms 0 0) = Mask [False, True, False] \<and>
   objective_function zero_field fit_atoms [] (fit_mask (Some (5, 50)) (radii fit_atoms 0 0))
       fit_stresses [] []
     = Inr [11, 12, 13, 14, 15, 16, 17, 18, 19]"
proof -
  have n: "positions fit_atoms = [(3, 4, 0), (6, 8, 0), (30, 40, 0)]"
    by (simp add: fit_atoms_def)
  show ?thesis
    by (simp add: fit_radii fit_mask_def objective_function_def zero_field_def crack_py_def
        select_def fit_stresses_def n np_binary_def dict_zip_def dict_update_def)
qed


















lemma fit_mask_open_interval:
  "fit_mask (Some (rmin, rmax)) r = Mask (map (\<lambda>ri. rmin < ri \<and> ri < rmax) r)"
  by (simp add: fit_mask_def)








text \<open>
  The status code that \<open>leastsq\<close> reports is unpacked into \<open>success\<close> and not read again:
  in every namespace, a solver that reports another code \<open>c\<close> leads to the same memory,
  the same \<open>atoms\<close> and the same result.
\<close>

lemma solve_and_store_status:
  "solve_and_store g (with_status c leastsq) atoms fix_params m s params
     = solve_and_store g leastsq atoms fix_params m s params"
  by (simp add: solve_and_store_def with_status_def Let_def split: sum.splits prod.splits)

lemma fit_crack_stress_field_status:
  "fit_crack_stress_field g (with_status c leastsq) calc_stresses mem atoms r_range
       initial_params fix_params sigma avg_sigma avg_decay
     = fit_crack_stress_field g leastsq calc_stresses mem atoms r_range
       initial_params fix_params sigma avg_sigma avg_decay"
  by (simp add: fit_crack_stress_field_def solve_and_store_status Let_def
      split: prod.splits sum.splits list.splits)

end
